theory Spec2Isabelle
  imports
    Main
    "HOL-Library.Sublist"
    "HOL-Library.Multiset"
    "HOL-Library.Char_ord"
    "HOL-Library.List_Lexorder"
    "HOL-Library.Product_Lexorder"
begin

section \<open>Python values\<close>

text \<open>
  The agent is a FastAPI application (\<^verbatim>\<open>src/main.py\<close>) with two utility predicates
  (\<^verbatim>\<open>src/utils/validators.py\<close>, \<^verbatim>\<open>src/utils/security.py\<close>) and a dispatcher class
  (\<^verbatim>\<open>src/handlers/task_handlers.py\<close>).

  A Python \<^verbatim>\<open>str\<close> is a \<^typ>\<open>string\<close>: a list of characters with code points
  below 256. Strings compare as in Python, lexicographically by code point
  (\<^verbatim>\<open>Char_ord\<close>, \<^verbatim>\<open>List_Lexorder\<close>), and tuples of strings lexicographically
  (\<^verbatim>\<open>Product_Lexorder\<close>).
\<close>

subsection \<open>Strings\<close>

text \<open>\<^verbatim>\<open>str.isspace\<close> on one character: the code points below 256 that Python counts as
  white space are 9 to 13, 28 to 32, 133 and 160.\<close>

definition py_isspace :: "char \<Rightarrow> bool" where
  "py_isspace c = (let n = (of_char c :: nat) in
     (9 \<le> n \<and> n \<le> 13) \<or> (28 \<le> n \<and> n \<le> 32) \<or> n = 133 \<or> n = 160)"

text \<open>\<^verbatim>\<open>str.lower\<close>: below 256 the upper-case letters are A to Z and the Latin-1 letters
  192 to 222 without the multiplication sign 215; each is 32 below its lower-case letter.\<close>

definition py_lower_char :: "char \<Rightarrow> char" where
  "py_lower_char c = (let n = (of_char c :: nat) in
     if (65 \<le> n \<and> n \<le> 90) \<or> (192 \<le> n \<and> n \<le> 222 \<and> n \<noteq> 215)
     then char_of (n + 32) else c)"

definition py_lower :: "string \<Rightarrow> string" where
  "py_lower s = map py_lower_char s"

text \<open>\<^verbatim>\<open>str.strip()\<close>: white space removed at both ends.\<close>

definition py_strip :: "string \<Rightarrow> string" where
  "py_strip s = rev (dropWhile py_isspace (rev (dropWhile py_isspace s)))"

text \<open>\<^verbatim>\<open>sub in s\<close> on strings: \<open>sub\<close> occurs at some position of \<open>s\<close>.\<close>

fun py_in :: "string \<Rightarrow> string \<Rightarrow> bool" where
  "py_in sub [] = (sub = [])"
| "py_in sub (c # cs) = (take (length sub) (c # cs) = sub \<or> py_in sub cs)"

text \<open>\<^verbatim>\<open>s.startswith(p)\<close>.\<close>

definition py_startswith :: "string \<Rightarrow> string \<Rightarrow> bool" where
  "py_startswith s p = (take (length p) s = p)"

text \<open>\<^verbatim>\<open>str(n)\<close> of a natural number and of an integer: decimal digits.\<close>

definition digit_char :: "nat \<Rightarrow> char" where
  "digit_char n = char_of (48 + n)"

function py_str_nat :: "nat \<Rightarrow> string" where
  "py_str_nat n =
     (if n < 10 then [digit_char n] else py_str_nat (n div 10) @ [digit_char (n mod 10)])"
  by pat_completeness auto
termination
  by (relation "measure id") auto

declare py_str_nat.simps [simp del]

text \<open>The number a string of decimal digits denotes.\<close>

definition decimal_value :: "string \<Rightarrow> nat" where
  "decimal_value s = foldl (\<lambda>a c. 10 * a + (of_char c - 48)) 0 s"

definition py_str_int :: "int \<Rightarrow> string" where
  "py_str_int i = (if i < 0 then ''-'' @ py_str_nat (nat (- i)) else py_str_nat (nat i))"

text \<open>\<^verbatim>\<open>repr\<close> of a string of letters, digits and underscores: the string in single
  quotes.\<close>

definition quoted :: "string \<Rightarrow> string" where
  "quoted s = [CHR 0x27] @ s @ [CHR 0x27]"

subsection \<open>Exceptions\<close>

text \<open>
  An exception is FastAPI's \<^verbatim>\<open>HTTPException(status_code, detail)\<close> or any other subclass
  of \<^verbatim>\<open>Exception\<close>, kept as its class name and its \<^verbatim>\<open>str(e)\<close>. A function that may
  raise returns \<open>py_exn + 'a\<close>, \<open>Inl\<close> the exception raised.
\<close>

datatype py_exn = HTTPException nat string | PyExn string string

fun is_HTTPException :: "py_exn \<Rightarrow> bool" where
  "is_HTTPException (HTTPException sc detail) = True"
| "is_HTTPException (PyExn cls msg) = False"

fun exn_str :: "py_exn \<Rightarrow> string" where
  "exn_str (HTTPException sc detail) = py_str_nat sc @ '': '' @ detail"
| "exn_str (PyExn cls msg) = msg"

text \<open>The status of the response FastAPI sends: 200 for a returned value, the status of an
  \<^verbatim>\<open>HTTPException\<close>, 500 for any other exception that leaves the endpoint.\<close>

fun http_status :: "py_exn + 'a \<Rightarrow> nat" where
  "http_status (Inr v) = 200"
| "http_status (Inl (HTTPException sc detail)) = sc"
| "http_status (Inl (PyExn cls msg)) = 500"

subsection \<open>JSON values\<close>

text \<open>What \<^verbatim>\<open>json.loads\<close> returns: \<^verbatim>\<open>None\<close>, a bool, an int, a str, a list or a dict
  (its items, in order). JSON numbers with a fraction or an exponent are floats and are
  outside this type.\<close>

datatype json =
    JNull
  | JBool bool
  | JNum int
  | JStr string
  | JArr "json list"
  | JObj "(string \<times> json) list"

text \<open>\<^verbatim>\<open>v[key]\<close> with a string key: a dict looks the key up and raises \<^verbatim>\<open>KeyError\<close>
  when it is absent; every other value raises \<^verbatim>\<open>TypeError\<close>.\<close>

fun py_getitem :: "json \<Rightarrow> string \<Rightarrow> py_exn + json" where
  "py_getitem (JObj kvs) k =
     (case map_of kvs k of
        None \<Rightarrow> Inl (PyExn ''KeyError'' (quoted k))
      | Some v \<Rightarrow> Inr v)"
| "py_getitem (JArr vs) k =
     Inl (PyExn ''TypeError'' ''list indices must be integers or slices, not str'')"
| "py_getitem (JStr s) k =
     Inl (PyExn ''TypeError'' (''string indices must be integers, not '' @ quoted ''str''))"
| "py_getitem (JNum n) k =
     Inl (PyExn ''TypeError'' (quoted ''int'' @ '' object is not subscriptable''))"
| "py_getitem (JBool b) k =
     Inl (PyExn ''TypeError'' (quoted ''bool'' @ '' object is not subscriptable''))"
| "py_getitem JNull k =
     Inl (PyExn ''TypeError'' (quoted ''NoneType'' @ '' object is not subscriptable''))"

definition status_success :: json where
  "status_success = JObj [(''status'', JStr ''success'')]"

text \<open>\<^verbatim>\<open>type(v).__name__\<close>.\<close>

fun type_name :: "json \<Rightarrow> string" where
  "type_name JNull = ''NoneType''"
| "type_name (JBool b) = ''bool''"
| "type_name (JNum n) = ''int''"
| "type_name (JStr s) = ''str''"
| "type_name (JArr vs) = ''list''"
| "type_name (JObj kvs) = ''dict''"

text \<open>Iterating a value, as \<^verbatim>\<open>sorted(v, ...)\<close> does first: a list gives its elements, a dict
  its keys, a str its characters; \<^verbatim>\<open>None\<close>, a bool and an int raise \<^verbatim>\<open>TypeError\<close>.\<close>

fun py_iter :: "json \<Rightarrow> py_exn + json list" where
  "py_iter (JArr vs) = Inr vs"
| "py_iter (JObj kvs) = Inr (map (\<lambda>kv. JStr (fst kv)) kvs)"
| "py_iter (JStr s) = Inr (map (\<lambda>c. JStr [c]) s)"
| "py_iter v = Inl (PyExn ''TypeError'' (quoted (type_name v) @ '' object is not iterable''))"

text \<open>
  \<^verbatim>\<open>x == y\<close> never raises: \<^verbatim>\<open>None\<close> equals \<^verbatim>\<open>None\<close>; bools and ints are equal as numbers
  (\<^verbatim>\<open>True == 1\<close>); strs are equal as strings; lists are equal when they have the same
  length and equal elements; dicts (whose keys are distinct) are equal when they have
  the same number of items and every key of the one has an equal value in the other.
\<close>

fun json_num :: "json \<Rightarrow> int option" where
  "json_num (JNum n) = Some n"
| "json_num (JBool b) = Some (if b then 1 else 0)"
| "json_num v = None"

fun py_eq :: "json \<Rightarrow> json \<Rightarrow> bool" where
  "py_eq JNull y = (y = JNull)"
| "py_eq (JBool b) y = (json_num y = Some (if b then 1 else 0))"
| "py_eq (JNum n) y = (json_num y = Some n)"
| "py_eq (JStr s) y = (y = JStr s)"
| "py_eq (JArr xs) y = (case y of JArr ys \<Rightarrow> list_all2 py_eq xs ys | _ \<Rightarrow> False)"
| "py_eq (JObj a) y =
     (case y of
        JObj b \<Rightarrow>
          length a = length b \<and>
          list_all (\<lambda>kv. case map_of b (fst kv) of None \<Rightarrow> False | Some w \<Rightarrow> py_eq (snd kv) w) a
      | _ \<Rightarrow> False)"

text \<open>
  \<^verbatim>\<open>x < y\<close>; \<open>None\<close> is its \<^verbatim>\<open>TypeError\<close>
  (\<^verbatim>\<open>'<' not supported between instances of ...\<close>). Bools and ints compare as numbers, strs
  by code point; two lists compare at the first index where their elements are not
  equal, and by length when there is none; every other pair of values raises.
\<close>

fun py_lt :: "json \<Rightarrow> json \<Rightarrow> bool option"
  and list_lt :: "json list \<Rightarrow> json list \<Rightarrow> bool option" where
  "py_lt (JStr s) y = (case y of JStr t \<Rightarrow> Some (s < t) | _ \<Rightarrow> None)"
| "py_lt (JNum n) y = (case json_num y of Some m \<Rightarrow> Some (n < m) | None \<Rightarrow> None)"
| "py_lt (JBool b) y =
     (case json_num y of Some m \<Rightarrow> Some ((if b then 1 else 0) < m) | None \<Rightarrow> None)"
| "py_lt (JArr xs) y = (case y of JArr ys \<Rightarrow> list_lt xs ys | _ \<Rightarrow> None)"
| "py_lt JNull y = None"
| "py_lt (JObj a) y = None"
| "list_lt [] ys = Some (ys \<noteq> [])"
| "list_lt (x # xs) [] = Some False"
| "list_lt (x # xs) (y # ys) = (if py_eq x y then list_lt xs ys else py_lt x y)"

section \<open>The environment\<close>

text \<open>
  Everything the code reaches outside itself is a field of the environment:
  \<^item> the file system, as \<^verbatim>\<open>pathlib\<close> and \<^verbatim>\<open>open\<close> see it: \<open>fs_resolve p\<close> is
    \<^verbatim>\<open>str(Path(p).resolve())\<close>, \<open>fs_is_file\<close> and \<open>fs_exists\<close> are \<^verbatim>\<open>Path.is_file\<close>
    and \<^verbatim>\<open>Path.exists\<close>, \<open>fs_read_text p\<close> is the text of the file (what
    \<^verbatim>\<open>Path.read_text\<close> and \<^verbatim>\<open>open(p).read()\<close> return, line ends already
    translated to \<^verbatim>\<open>\n\<close>), \<open>fs_write_fault p\<close> is the exception that opening \<open>p\<close> for
    writing raises, if any;
  \<^item> the LLM gateway: \<open>llm_get_completion\<close> is \<^verbatim>\<open>LLMClient.get_completion\<close>;
  \<^item> the standard library: \<open>json_loads\<close> is \<^verbatim>\<open>json.loads\<close> (and \<^verbatim>\<open>json.load\<close> on
    the text of a file); \<open>strptime_error s\<close> is the message of the \<^verbatim>\<open>ValueError\<close> that
    \<^verbatim>\<open>datetime.strptime\<close> raises on \<open>s\<close>; \<open>sorted_error ks\<close> is the message of the
    \<^verbatim>\<open>TypeError\<close> that \<^verbatim>\<open>sorted\<close> raises on the keys \<open>ks\<close> when two of them cannot be
    compared (it names the types of the two values whose comparison raised first);
  \<^item> \<open>other_handler m params\<close>: what the handler method \<open>m\<close> does, for the handlers
    that are not modelled here (they run subprocesses, SQLite and further LLM calls).
\<close>

record env =
  fs_resolve :: "string \<Rightarrow> py_exn + string"
  fs_is_file :: "string \<Rightarrow> py_exn + bool"
  fs_exists :: "string \<Rightarrow> py_exn + bool"
  fs_read_text :: "string \<Rightarrow> py_exn + string"
  fs_write_fault :: "string \<Rightarrow> py_exn option"
  llm_get_completion :: "string \<Rightarrow> py_exn + string"
  json_loads :: "string \<Rightarrow> py_exn + json"
  strptime_error :: "string \<Rightarrow> string"
  sorted_error :: "(json \<times> json) list \<Rightarrow> string"
  other_handler :: "string \<Rightarrow> json \<Rightarrow> py_exn + json"

text \<open>The effects a request leaves behind, in order: a completion request sent to the
  gateway (with its prompt), a handler method called (with its parameters), a file written
  (path and text), a value written to a file by \<^verbatim>\<open>json.dump(_, f, indent=2)\<close>
  (path and the value that is serialised). What \<^verbatim>\<open>print\<close> sends to standard output is not recorded.\<close>

datatype event =
    LLMCompletion string
  | HandlerCall string json
  | FileWrite string string
  | JsonDump string json

section \<open>Task Validator: \<^verbatim>\<open>src/utils/validators.py\<close>\<close>

definition dangerous_ops :: "string list" where
  "dangerous_ops = [''rm '', ''remove'', ''delete'', ''chmod'', ''chown'']"

definition is_valid_task :: "string \<Rightarrow> bool" where
  "is_valid_task task =
     (if task = [] \<or> length (py_strip task) < 5 then False
      else \<not> list_ex (\<lambda>op. py_in op (py_lower task)) dangerous_ops)"

section \<open>Path Guard: \<^verbatim>\<open>src/utils/security.py\<close>\<close>

text \<open>The body of the \<^verbatim>\<open>try\<close> block of \<^verbatim>\<open>validate_path\<close>, and the function itself:
  \<^verbatim>\<open>except Exception: return False\<close>.\<close>

definition validate_path_body :: "env \<Rightarrow> string \<Rightarrow> py_exn + bool" where
  "validate_path_body E path =
     (case fs_resolve E path of
        Inl e \<Rightarrow> Inl e
      | Inr file_path \<Rightarrow>
          (case fs_resolve E ''/data'' of
             Inl e \<Rightarrow> Inl e
           | Inr data_dir \<Rightarrow>
               if \<not> py_startswith file_path data_dir then Inr False
               else (case fs_is_file E file_path of
                       Inl e \<Rightarrow> Inl e
                     | Inr b \<Rightarrow> if \<not> b then Inr False else Inr True)))"

definition validate_path :: "env \<Rightarrow> string \<Rightarrow> bool" where
  "validate_path E path =
     (case validate_path_body E path of Inl e \<Rightarrow> False | Inr b \<Rightarrow> b)"

section \<open>The endpoint \<^verbatim>\<open>GET /read\<close>: \<^verbatim>\<open>read_file\<close> of \<^verbatim>\<open>src/main.py\<close>\<close>

definition read_file_body :: "env \<Rightarrow> string \<Rightarrow> py_exn + string" where
  "read_file_body E path =
     (if \<not> validate_path E path
      then Inl (HTTPException 400 ''Invalid path: Must be within /data directory'')
      else (case fs_exists E path of
              Inl e \<Rightarrow> Inl e
            | Inr ex \<Rightarrow>
                if \<not> ex then Inl (HTTPException 404 (''File not found: '' @ path))
                else (case fs_read_text E path of
                        Inl e \<Rightarrow> Inl e
                      | Inr content \<Rightarrow> Inr content)))"

text \<open>The \<^verbatim>\<open>except Exception as e\<close> clause: an \<^verbatim>\<open>HTTPException\<close> is raised again,
  anything else becomes a 500.\<close>

definition read_file_except :: "py_exn \<Rightarrow> py_exn" where
  "read_file_except e =
     (if is_HTTPException e then e
      else HTTPException 500 (''Internal server error: '' @ exn_str e))"

definition read_file :: "env \<Rightarrow> string \<Rightarrow> py_exn + string" where
  "read_file E path =
     (case read_file_body E path of
        Inl e \<Rightarrow> Inl (read_file_except e)
      | Inr content \<Rightarrow> Inr content)"

section \<open>Dates: \<^verbatim>\<open>datetime.strptime(s, '%Y-%m-%d').weekday()\<close>\<close>

text \<open>
  A date of the proleptic Gregorian calendar, as \<^verbatim>\<open>datetime\<close> holds it. The day
  number and the weekday follow the reference implementation of \<^verbatim>\<open>datetime\<close>:
  \<^verbatim>\<open>toordinal\<close> counts days from 0001-01-01 (day 1), and \<^verbatim>\<open>weekday()\<close> is
  \<^verbatim>\<open>(toordinal() + 6) % 7\<close>, Monday 0 and Wednesday 2.
\<close>

record date =
  year :: int
  month :: int
  day :: int

definition is_leap :: "int \<Rightarrow> bool" where
  "is_leap y = (y mod 4 = 0 \<and> (y mod 100 \<noteq> 0 \<or> y mod 400 = 0))"

definition DAYS_IN_MONTH :: "int list" where
  "DAYS_IN_MONTH = [31, 28, 31, 30, 31, 30, 31, 31, 30, 31, 30, 31]"

definition days_in_month :: "int \<Rightarrow> int \<Rightarrow> int" where
  "days_in_month y m =
     (if m = 2 \<and> is_leap y then 29 else DAYS_IN_MONTH ! nat (m - 1))"

definition days_before_month :: "int \<Rightarrow> int \<Rightarrow> int" where
  "days_before_month y m =
     sum_list (take (nat (m - 1)) DAYS_IN_MONTH) + (if m > 2 \<and> is_leap y then 1 else 0)"

definition days_before_year :: "int \<Rightarrow> int" where
  "days_before_year y = (let y1 = y - 1 in y1 * 365 + y1 div 4 - y1 div 100 + y1 div 400)"

definition toordinal :: "date \<Rightarrow> int" where
  "toordinal dt = days_before_year (year dt) + days_before_month (year dt) (month dt) + day dt"

definition weekday :: "date \<Rightarrow> int" where
  "weekday dt = (toordinal dt + 6) mod 7"

text \<open>The constructor's range check: years 1 to 9999, months 1 to 12, days of the month.\<close>

definition valid_date :: "date \<Rightarrow> bool" where
  "valid_date dt =
     (1 \<le> year dt \<and> year dt \<le> 9999 \<and> 1 \<le> month dt \<and> month dt \<le> 12 \<and>
      1 \<le> day dt \<and> day dt \<le> days_in_month (year dt) (month dt))"

definition is_digit :: "char \<Rightarrow> bool" where
  "is_digit c = (48 \<le> (of_char c :: nat) \<and> (of_char c :: nat) \<le> 57)"

definition digit_val :: "char \<Rightarrow> int" where
  "digit_val c = int (of_char c) - 48"

text \<open>
  \<^verbatim>\<open>strptime\<close> turns the format \<^verbatim>\<open>%Y-%m-%d\<close> into the regular expression
  \<^verbatim>\<open>(\d\d\d\d)-(1[0-2]|0[1-9]|[1-9])-(3[0-1]|[1-2]\d|0[1-9]|[1-9]| [1-9])\<close>, which must
  match the whole string. \<open>match_month\<close> and \<open>match_day\<close> match a whole string against the
  second and the third group.
\<close>

definition match_month :: "string \<Rightarrow> int option" where
  "match_month s =
     (case s of
        [a, b] \<Rightarrow>
          if a = CHR ''1'' \<and> is_digit b \<and> digit_val b \<le> 2 then Some (10 + digit_val b)
          else if a = CHR ''0'' \<and> is_digit b \<and> 1 \<le> digit_val b then Some (digit_val b)
          else None
      | [a] \<Rightarrow> if is_digit a \<and> 1 \<le> digit_val a then Some (digit_val a) else None
      | _ \<Rightarrow> None)"

definition match_day :: "string \<Rightarrow> int option" where
  "match_day s =
     (case s of
        [a, b] \<Rightarrow>
          if a = CHR ''3'' \<and> is_digit b \<and> digit_val b \<le> 1 then Some (30 + digit_val b)
          else if is_digit a \<and> 1 \<le> digit_val a \<and> digit_val a \<le> 2 \<and> is_digit b
            then Some (10 * digit_val a + digit_val b)
          else if a = CHR ''0'' \<and> is_digit b \<and> 1 \<le> digit_val b then Some (digit_val b)
          else if a = CHR '' '' \<and> is_digit b \<and> 1 \<le> digit_val b then Some (digit_val b)
          else None
      | [a] \<Rightarrow> if is_digit a \<and> 1 \<le> digit_val a then Some (digit_val a) else None
      | _ \<Rightarrow> None)"

definition match_year :: "string \<Rightarrow> int option" where
  "match_year s =
     (case s of
        [a, b, c, d] \<Rightarrow>
          if is_digit a \<and> is_digit b \<and> is_digit c \<and> is_digit d
          then Some (1000 * digit_val a + 100 * digit_val b + 10 * digit_val c + digit_val d)
          else None
      | _ \<Rightarrow> None)"

text \<open>\<^verbatim>\<open>datetime.strptime(s, '%Y-%m-%d')\<close>; \<open>None\<close> is its \<^verbatim>\<open>ValueError\<close>, raised when
  the string does not match or the date is out of range.\<close>

definition strptime_Ymd :: "string \<Rightarrow> date option" where
  "strptime_Ymd s =
     (case match_year (take 4 s) of
        None \<Rightarrow> None
      | Some y \<Rightarrow>
          (case drop 4 s of
             [] \<Rightarrow> None
           | c # rest \<Rightarrow>
               if c \<noteq> CHR ''-'' then None
               else (case dropWhile (\<lambda>x. x \<noteq> CHR ''-'') rest of
                       [] \<Rightarrow> None
                     | c' # ds \<Rightarrow>
                         (case match_month (takeWhile (\<lambda>x. x \<noteq> CHR ''-'') rest) of
                            None \<Rightarrow> None
                          | Some m \<Rightarrow>
                              (case match_day ds of
                                 None \<Rightarrow> None
                               | Some d \<Rightarrow>
                                   let dt = \<lparr>year = y, month = m, day = d\<rparr>
                                   in if valid_date dt then Some dt else None)))))"

text \<open>An ISO date \<^verbatim>\<open>YYYY-MM-DD\<close>, as \<^verbatim>\<open>date.isoformat()\<close> writes it.\<close>

definition two_digits :: "nat \<Rightarrow> string" where
  "two_digits n = [digit_char (n div 10 mod 10), digit_char (n mod 10)]"

definition isoformat :: "date \<Rightarrow> string" where
  "isoformat dt =
     two_digits (nat (year dt) div 100) @ two_digits (nat (year dt)) @ ''-'' @
     two_digits (nat (month dt)) @ ''-'' @ two_digits (nat (day dt))"

text \<open>The day after a date.\<close>

definition next_day :: "date \<Rightarrow> date" where
  "next_day dt =
     (if day dt < days_in_month (year dt) (month dt) then dt\<lparr>day := day dt + 1\<rparr>
      else if month dt < 12 then dt\<lparr>month := month dt + 1, day := 1\<rparr>
      else \<lparr>year = year dt + 1, month = 1, day = 1\<rparr>)"

text \<open>\<^verbatim>\<open>f.readlines()\<close> on the text of a file: the lines, each with its \<^verbatim>\<open>\n\<close>; the
  last line has none when the text does not end with one.\<close>

fun readlines :: "string \<Rightarrow> string list" where
  "readlines [] = []"
| "readlines (c # cs) =
     (if c = CHR 0x0A then [c] # readlines cs
      else (case readlines cs of [] \<Rightarrow> [[c]] | l # ls \<Rightarrow> (c # l) # ls))"

section \<open>Handlers: \<^verbatim>\<open>src/handlers/task_handlers.py\<close>\<close>

text \<open>A handler returns its result or the exception it raises, and the events it left
  behind. The leading underscore of the methods' names is dropped in the names of their
  models.\<close>

subsection \<open>\<^verbatim>\<open>_handle_weekday_counting\<close>\<close>

definition dates_file :: string where
  "dates_file = ''/data/dates.txt''"

definition wednesdays_file :: string where
  "wednesdays_file = ''/data/dates-wednesdays.txt''"

text \<open>\<^verbatim>\<open>sum(1 for date in dates if datetime.strptime(date.strip(), '%Y-%m-%d').weekday() == 2)\<close>:
  the first line that \<^verbatim>\<open>strptime\<close> rejects ends the sum with its \<^verbatim>\<open>ValueError\<close>.\<close>

fun count_wednesdays :: "env \<Rightarrow> string list \<Rightarrow> py_exn + nat" where
  "count_wednesdays E [] = Inr 0"
| "count_wednesdays E (date # dates) =
     (case strptime_Ymd (py_strip date) of
        None \<Rightarrow> Inl (PyExn ''ValueError'' (strptime_error E (py_strip date)))
      | Some dt \<Rightarrow>
          (case count_wednesdays E dates of
             Inl e \<Rightarrow> Inl e
           | Inr n \<Rightarrow> Inr ((if weekday dt = 2 then 1 else 0) + n)))"

text \<open>A stripped line that is the ISO form of a date on a Wednesday.\<close>

definition iso_wednesday :: "string \<Rightarrow> bool" where
  "iso_wednesday s =
     (case strptime_Ymd s of
        None \<Rightarrow> False
      | Some dt \<Rightarrow> isoformat dt = s \<and> weekday dt = 2)"

definition handle_weekday_counting_body :: "env \<Rightarrow> json \<Rightarrow> (py_exn + json) \<times> event list" where
  "handle_weekday_counting_body E params =
     (case fs_read_text E dates_file of
        Inl e \<Rightarrow> (Inl e, [])
      | Inr text \<Rightarrow>
          (case count_wednesdays E (readlines text) of
             Inl e \<Rightarrow> (Inl e, [])
           | Inr cnt \<Rightarrow>
               (case fs_write_fault E wednesdays_file of
                  Some e \<Rightarrow> (Inl e, [])
                | None \<Rightarrow>
                    (Inr status_success, [FileWrite wednesdays_file (py_str_nat cnt)]))))"

definition handle_weekday_counting :: "env \<Rightarrow> json \<Rightarrow> (py_exn + json) \<times> event list" where
  "handle_weekday_counting E params =
     (case handle_weekday_counting_body E params of
        (Inl e, tr) \<Rightarrow> (Inl (PyExn ''Exception'' (''Failed to count weekdays: '' @ exn_str e)), tr)
      | (Inr v, tr) \<Rightarrow> (Inr v, tr))"

subsection \<open>\<^verbatim>\<open>_handle_contact_sorting\<close>\<close>

definition contacts_file :: string where
  "contacts_file = ''/data/contacts.json''"

definition contacts_sorted_file :: string where
  "contacts_sorted_file = ''/data/contacts-sorted.json''"

text \<open>The key \<^verbatim>\<open>lambda x: (x['last_name'], x['first_name'])\<close>: a tuple of two JSON
  values.\<close>

definition contact_key :: "json \<Rightarrow> py_exn + (json \<times> json)" where
  "contact_key x =
     (case py_getitem x ''last_name'' of
        Inl e \<Rightarrow> Inl e
      | Inr l \<Rightarrow>
          (case py_getitem x ''first_name'' of
             Inl e \<Rightarrow> Inl e
           | Inr f \<Rightarrow> Inr (l, f)))"

text \<open>\<^verbatim>\<open>a < b\<close> on two such tuples: the first components that are not equal are compared;
  tuples with equal components are not less than one another.\<close>

definition key_lt :: "json \<times> json \<Rightarrow> json \<times> json \<Rightarrow> bool option" where
  "key_lt a b =
     (if \<not> py_eq (fst a) (fst b) then py_lt (fst a) (fst b)
      else if \<not> py_eq (snd a) (snd b) then py_lt (snd a) (snd b)
      else Some False)"

text \<open>Every two keys at different positions can be compared, either way round.\<close>

fun orderable :: "(json \<times> json) list \<Rightarrow> bool" where
  "orderable [] = True"
| "orderable (k # ks) =
     (list_all (\<lambda>b. key_lt k b \<noteq> None \<and> key_lt b k \<noteq> None) ks \<and> orderable ks)"

text \<open>A stable sort by a less-than test: an element is put in front of the first element
  of the sorted rest that is not less than it.\<close>

fun insort_lt :: "('a \<Rightarrow> 'a \<Rightarrow> bool) \<Rightarrow> 'a \<Rightarrow> 'a list \<Rightarrow> 'a list" where
  "insort_lt lt x [] = [x]"
| "insort_lt lt x (y # ys) = (if lt y x then y # insort_lt lt x ys else x # y # ys)"

definition sort_lt :: "('a \<Rightarrow> 'a \<Rightarrow> bool) \<Rightarrow> 'a list \<Rightarrow> 'a list" where
  "sort_lt lt xs = foldr (insort_lt lt) xs []"

text \<open>The names of a contact as strings, and its key as a pair of strings, for a contact
  whose two names are strings.\<close>

definition name_of :: "json \<Rightarrow> string \<Rightarrow> string" where
  "name_of x k = (case py_getitem x k of Inr (JStr s) \<Rightarrow> s | _ \<Rightarrow> [])"

definition name_key :: "json \<Rightarrow> string \<times> string" where
  "name_key x = (name_of x ''last_name'', name_of x ''first_name'')"

text \<open>
  \<^verbatim>\<open>sorted(contacts, key=...)\<close> on the elements of \<^verbatim>\<open>contacts\<close>: it computes the key of
  every element first, in order, and then sorts the elements by their keys with a stable
  sort that uses \<^verbatim>\<open><\<close> only. A comparison of two keys that cannot be compared raises
  \<^verbatim>\<open>TypeError\<close>. The sort ends without it exactly when every two keys can be compared:
  it has to compare keys that end up next to each other (directly, or through a key equal
  to one of them), and a JSON value that lies between two values it can be compared with
  makes those two comparable as well.
\<close>

fun contact_keys :: "json list \<Rightarrow> py_exn + (json \<times> json) list" where
  "contact_keys [] = Inr []"
| "contact_keys (x # xs) =
     (case contact_key x of
        Inl e \<Rightarrow> Inl e
      | Inr k \<Rightarrow> (case contact_keys xs of Inl e \<Rightarrow> Inl e | Inr ks \<Rightarrow> Inr (k # ks)))"

definition sorted_contacts :: "env \<Rightarrow> json list \<Rightarrow> py_exn + json list" where
  "sorted_contacts E contacts =
     (case contact_keys contacts of
        Inl e \<Rightarrow> Inl e
      | Inr ks \<Rightarrow>
          if orderable ks
          then Inr (map snd
                 (sort_lt (\<lambda>p q. key_lt (fst p) (fst q) = Some True) (zip ks contacts)))
          else Inl (PyExn ''TypeError'' (sorted_error E ks)))"

definition handle_contact_sorting_body :: "env \<Rightarrow> json \<Rightarrow> (py_exn + json) \<times> event list" where
  "handle_contact_sorting_body E params =
     (case fs_read_text E contacts_file of
        Inl e \<Rightarrow> (Inl e, [])
      | Inr text \<Rightarrow>
          (case json_loads E text of
             Inl e \<Rightarrow> (Inl e, [])
           | Inr contacts \<Rightarrow>
               (case py_iter contacts of
                  Inl e \<Rightarrow> (Inl e, [])
                | Inr elements \<Rightarrow>
                    (case sorted_contacts E elements of
                       Inl e \<Rightarrow> (Inl e, [])
                     | Inr sorted_cs \<Rightarrow>
                         (case fs_write_fault E contacts_sorted_file of
                            Some e \<Rightarrow> (Inl e, [])
                          | None \<Rightarrow>
                              (Inr status_success,
                               [JsonDump contacts_sorted_file (JArr sorted_cs)]))))))"

definition handle_contact_sorting :: "env \<Rightarrow> json \<Rightarrow> (py_exn + json) \<times> event list" where
  "handle_contact_sorting E params =
     (case handle_contact_sorting_body E params of
        (Inl e, tr) \<Rightarrow> (Inl (PyExn ''Exception'' (''Failed to sort contacts: '' @ exn_str e)), tr)
      | (Inr v, tr) \<Rightarrow> (Inr v, tr))"

subsection \<open>The registry and the dispatcher \<^verbatim>\<open>handle_task\<close>\<close>

text \<open>The dict literal \<^verbatim>\<open>handlers\<close> of \<^verbatim>\<open>handle_task\<close>: task type and the method
  \<^verbatim>\<open>self.<name>\<close> it is bound to, in the order of the source.\<close>

definition registry :: "(string \<times> string) list" where
  "registry =
     [(''install_uv'', ''_handle_uv_installation''),
      (''format_markdown'', ''_handle_markdown_formatting''),
      (''count_weekdays'', ''_handle_weekday_counting''),
      (''sort_contacts'', ''_handle_contact_sorting''),
      (''recent_logs'', ''_handle_recent_logs''),
      (''create_index'', ''_handle_markdown_index''),
      (''extract_email'', ''_handle_email_extraction''),
      (''extract_card'', ''_handle_card_extraction''),
      (''find_similar'', ''_handle_similar_comments''),
      (''query_database'', ''_handle_database_query''),
      (''fetch_api'', ''_handle_api_fetch''),
      (''git_operations'', ''_handle_git_ops''),
      (''scrape_website'', ''_handle_web_scraping''),
      (''process_image'', ''_handle_image_processing''),
      (''process_audio'', ''_handle_audio_processing''),
      (''convert_markdown'', ''_handle_markdown_conversion''),
      (''filter_csv'', ''_handle_csv_filtering'')]"

text \<open>The attributes a \<^verbatim>\<open>TaskHandler\<close> object has: the two set by \<^verbatim>\<open>__init__\<close> and the
  methods the class body defines. The class body ends with \<^verbatim>\<open>_handle_database_query\<close>.\<close>

definition TaskHandler_attributes :: "string list" where
  "TaskHandler_attributes =
     [''llm_client'', ''data_dir'', ''__init__'', ''handle_task'', ''_classify_task'',
      ''_handle_uv_installation'', ''_handle_markdown_formatting'',
      ''_handle_weekday_counting'', ''_handle_contact_sorting'', ''_handle_recent_logs'',
      ''_handle_markdown_index'', ''_handle_email_extraction'', ''_handle_card_extraction'',
      ''_handle_similar_comments'', ''_handle_database_query'']"

text \<open>Evaluating the dict literal on an object with the attributes \<open>attrs\<close>: the entries
  are evaluated in order, and \<^verbatim>\<open>self.<name>\<close> raises \<^verbatim>\<open>AttributeError\<close> for a name
  the object does not have.\<close>

fun build_handlers :: "string list \<Rightarrow> (string \<times> string) list \<Rightarrow> py_exn + (string \<times> string) list" where
  "build_handlers attrs [] = Inr []"
| "build_handlers attrs ((k, m) # entries) =
     (if m \<in> set attrs
      then (case build_handlers attrs entries of
              Inl e \<Rightarrow> Inl e
            | Inr h \<Rightarrow> Inr ((k, m) # h))
      else Inl (PyExn ''AttributeError''
             (quoted ''TaskHandler'' @ '' object has no attribute '' @ quoted m)))"

text \<open>\<^verbatim>\<open>handler = handlers.get(task_type)\<close> and \<^verbatim>\<open>if not handler: raise ValueError(...)\<close>.
  A list or a dict is unhashable, so \<^verbatim>\<open>get\<close> raises \<^verbatim>\<open>TypeError\<close>; any other value that
  is not a key gives \<^verbatim>\<open>None\<close>, and the message holds \<^verbatim>\<open>str(task_type)\<close>.\<close>

fun lookup_handler :: "(string \<times> string) list \<Rightarrow> json \<Rightarrow> py_exn + string" where
  "lookup_handler h (JStr s) =
     (case map_of h s of
        Some m \<Rightarrow> Inr m
      | None \<Rightarrow> Inl (PyExn ''ValueError'' (''Unknown task type: '' @ s)))"
| "lookup_handler h (JNum n) = Inl (PyExn ''ValueError'' (''Unknown task type: '' @ py_str_int n))"
| "lookup_handler h (JBool b) =
     Inl (PyExn ''ValueError'' (''Unknown task type: '' @ (if b then ''True'' else ''False'')))"
| "lookup_handler h JNull = Inl (PyExn ''ValueError'' ''Unknown task type: None'')"
| "lookup_handler h (JArr vs) = Inl (PyExn ''TypeError'' (''unhashable type: '' @ quoted ''list''))"
| "lookup_handler h (JObj kvs) = Inl (PyExn ''TypeError'' (''unhashable type: '' @ quoted ''dict''))"

text \<open>\<^verbatim>\<open>await handler(params)\<close> for the method named \<open>m\<close>.\<close>

definition invoke_handler :: "env \<Rightarrow> string \<Rightarrow> json \<Rightarrow> (py_exn + json) \<times> event list" where
  "invoke_handler E m params =
     (let (r, tr) =
        (if m = ''_handle_weekday_counting'' then handle_weekday_counting E params
         else if m = ''_handle_contact_sorting'' then handle_contact_sorting E params
         else (other_handler E m params, []))
      in (r, HandlerCall m params # tr))"

text \<open>The prompt of \<^verbatim>\<open>_classify_task\<close>: the f-string with the task on its second line.\<close>

definition classify_prompt :: "string \<Rightarrow> string" where
  "classify_prompt task =
     [CHR 0x0A] @
     ''        Classify the following task and extract relevant parameters:'' @ [CHR 0x0A] @
     ''        '' @ task @ [CHR 0x0A] @
     ''        '' @ [CHR 0x0A] @
     ''        Return a JSON with:'' @ [CHR 0x0A] @
     ''        - task_type: one of [install_uv, format_markdown, count_weekdays, ...]'' @ [CHR 0x0A] @
     ''        - parameters: dictionary of relevant parameters'' @ [CHR 0x0A] @
     ''        ''"

text \<open>\<^verbatim>\<open>_classify_task\<close>: one completion request, then \<^verbatim>\<open>json.loads\<close> of the answer.\<close>

definition classify_task :: "env \<Rightarrow> string \<Rightarrow> (py_exn + json) \<times> event list" where
  "classify_task E task =
     (case llm_get_completion E (classify_prompt task) of
        Inl e \<Rightarrow> (Inl e, [LLMCompletion (classify_prompt task)])
      | Inr response \<Rightarrow> (json_loads E response, [LLMCompletion (classify_prompt task)]))"

text \<open>\<^verbatim>\<open>handle_task\<close> on an object with the attributes \<open>attrs\<close>, and on a
  \<^verbatim>\<open>TaskHandler\<close> as the class defines it.\<close>

definition handle_task_on :: "string list \<Rightarrow> env \<Rightarrow> string \<Rightarrow> (py_exn + json) \<times> event list" where
  "handle_task_on attrs E task =
     (case classify_task E task of
        (Inl e, tr) \<Rightarrow> (Inl e, tr)
      | (Inr classification, tr) \<Rightarrow>
          (case py_getitem classification ''task_type'' of
             Inl e \<Rightarrow> (Inl e, tr)
           | Inr task_type \<Rightarrow>
               (case py_getitem classification ''parameters'' of
                  Inl e \<Rightarrow> (Inl e, tr)
                | Inr params \<Rightarrow>
                    (case build_handlers attrs registry of
                       Inl e \<Rightarrow> (Inl e, tr)
                     | Inr handlers \<Rightarrow>
                         (case lookup_handler handlers task_type of
                            Inl e \<Rightarrow> (Inl e, tr)
                          | Inr m \<Rightarrow>
                              (let (r, tr') = invoke_handler E m params
                               in (r, tr @ tr')))))))"

definition handle_task :: "env \<Rightarrow> string \<Rightarrow> (py_exn + json) \<times> event list" where
  "handle_task E task = handle_task_on TaskHandler_attributes E task"

section \<open>The endpoint \<^verbatim>\<open>POST /run\<close>: \<^verbatim>\<open>run_task\<close> of \<^verbatim>\<open>src/main.py\<close>\<close>

text \<open>The \<^verbatim>\<open>try\<close> block.\<close>

definition run_task_body_on :: "string list \<Rightarrow> env \<Rightarrow> string \<Rightarrow> (py_exn + json) \<times> event list" where
  "run_task_body_on attrs E task =
     (if task = [] \<or> \<not> is_valid_task task
      then (Inl (HTTPException 400 ''Invalid task description''), [])
      else (case handle_task_on attrs E task of
              (Inl e, tr) \<Rightarrow> (Inl e, tr)
            | (Inr result, tr) \<Rightarrow>
                (Inr (JObj [(''status'', JStr ''success''), (''result'', result)]), tr)))"

text \<open>The \<^verbatim>\<open>except Exception as e\<close> clause: an \<^verbatim>\<open>HTTPException\<close> is raised again; any
  other exception becomes a 400 when its text holds \<^verbatim>\<open>Invalid\<close> or
  \<^verbatim>\<open>Failed to parse\<close>, and a 500 otherwise.\<close>

definition run_task_except :: "py_exn \<Rightarrow> py_exn" where
  "run_task_except e =
     (if is_HTTPException e then e
      else if py_in ''Invalid'' (exn_str e) \<or> py_in ''Failed to parse'' (exn_str e)
        then HTTPException 400 (exn_str e)
      else HTTPException 500 (''Internal server error: '' @ exn_str e))"

definition run_task_on :: "string list \<Rightarrow> env \<Rightarrow> string \<Rightarrow> (py_exn + json) \<times> event list" where
  "run_task_on attrs E task =
     (case run_task_body_on attrs E task of
        (Inl e, tr) \<Rightarrow> (Inl (run_task_except e), tr)
      | (Inr v, tr) \<Rightarrow> (Inr v, tr))"

definition run_task :: "env \<Rightarrow> string \<Rightarrow> (py_exn + json) \<times> event list" where
  "run_task E task = run_task_on TaskHandler_attributes E task"

text \<open>What the trace of a request says: whether the gateway was called, and whether a
  handler ran or a file was written.\<close>

fun is_llm_event :: "event \<Rightarrow> bool" where
  "is_llm_event (LLMCompletion p) = True"
| "is_llm_event ev = False"

fun is_handler_event :: "event \<Rightarrow> bool" where
  "is_handler_event (LLMCompletion p) = False"
| "is_handler_event ev = True"

section \<open>A sample environment\<close>

text \<open>
  A file system without symbolic links whose working directory is the root: resolving a
  path drops empty and \<^verbatim>\<open>.\<close> components and lets \<^verbatim>\<open>..\<close> remove the component
  before it.
\<close>

fun split_slash :: "string \<Rightarrow> string list" where
  "split_slash [] = [[]]"
| "split_slash (c # cs) =
     (if c = CHR ''/'' then [] # split_slash cs
      else (case split_slash cs of [] \<Rightarrow> [[c]] | p # ps \<Rightarrow> (c # p) # ps))"

fun normalize_parts :: "string list \<Rightarrow> string list \<Rightarrow> string list" where
  "normalize_parts stack [] = rev stack"
| "normalize_parts stack (p # ps) =
     (if p = [] \<or> p = ''.'' then normalize_parts stack ps
      else if p = ''..'' then normalize_parts (tl stack) ps
      else normalize_parts (p # stack) ps)"

definition plain_resolve :: "string \<Rightarrow> string" where
  "plain_resolve p =
     (let parts = normalize_parts [] (split_slash p)
      in if parts = [] then ''/'' else concat (map (\<lambda>q. CHR ''/'' # q) parts))"

text \<open>\<open>is_under root p\<close>: the path \<open>p\<close> is \<open>root\<close> or lies below it, component by
  component.\<close>

definition path_parts :: "string \<Rightarrow> string list" where
  "path_parts p = filter (\<lambda>q. q \<noteq> []) (split_slash p)"

definition is_under :: "string \<Rightarrow> string \<Rightarrow> bool" where
  "is_under root p = prefix (path_parts root) (path_parts p)"

text \<open>The regular files of the sample: path, and the text of the file or the exception
  that reading it as text raises.\<close>

definition demo_dates_text :: string where
  "demo_dates_text =
     ''2024-01-01'' @ [CHR 0x0A] @ ''2024-01-03'' @ [CHR 0x0A] @ ''2024-01-10'' @ [CHR 0x0A]"

definition dq :: "string \<Rightarrow> string" where
  "dq s = [CHR 0x22] @ s @ [CHR 0x22]"

definition demo_contacts_text :: string where
  "demo_contacts_text =
     ''[{'' @ dq ''id'' @ '': 1, '' @ dq ''first_name'' @ '': '' @ dq ''Bob'' @ '', '' @
              dq ''last_name'' @ '': '' @ dq ''Smith'' @ ''}, '' @
     ''{'' @ dq ''id'' @ '': 2, '' @ dq ''first_name'' @ '': '' @ dq ''Amy'' @ '', '' @
              dq ''last_name'' @ '': '' @ dq ''Jones'' @ ''}, '' @
     ''{'' @ dq ''id'' @ '': 3, '' @ dq ''first_name'' @ '': '' @ dq ''Amy'' @ '', '' @
              dq ''last_name'' @ '': '' @ dq ''Jones'' @ ''}, '' @
     ''{'' @ dq ''id'' @ '': 4, '' @ dq ''first_name'' @ '': '' @ dq ''Al'' @ '', '' @
              dq ''last_name'' @ '': '' @ dq ''Jones'' @ ''}]''"

definition demo_contact :: "int \<Rightarrow> string \<Rightarrow> string \<Rightarrow> json" where
  "demo_contact i f l =
     JObj [(''id'', JNum i), (''first_name'', JStr f), (''last_name'', JStr l)]"

definition demo_contacts :: "json list" where
  "demo_contacts =
     [demo_contact 1 ''Bob'' ''Smith'', demo_contact 2 ''Amy'' ''Jones'',
      demo_contact 3 ''Amy'' ''Jones'', demo_contact 4 ''Al'' ''Jones'']"

text \<open>A contacts file in which one \<^verbatim>\<open>last_name\<close> is \<^verbatim>\<open>null\<close>.\<close>

definition demo_null_contacts_text :: string where
  "demo_null_contacts_text =
     ''[{'' @ dq ''last_name'' @ '': null, '' @ dq ''first_name'' @ '': '' @ dq ''Al'' @ ''}, '' @
     ''{'' @ dq ''last_name'' @ '': '' @ dq ''Jones'' @ '', '' @
             dq ''first_name'' @ '': '' @ dq ''Amy'' @ ''}]''"

definition demo_null_contacts :: "json list" where
  "demo_null_contacts =
     [JObj [(''last_name'', JNull), (''first_name'', JStr ''Al'')],
      JObj [(''last_name'', JStr ''Jones''), (''first_name'', JStr ''Amy'')]]"

definition demo_files :: "(string \<times> (py_exn + string)) list" where
  "demo_files =
     [(''/data/x.txt'', Inr ''hello''),
      (''/data2/x.txt'', Inr ''outside the root''),
      (''/etc/passwd'', Inr ''root:x:0:0:root:/root:/bin/sh''),
      (''/data/credit-card.png'',
         Inl (PyExn ''UnicodeDecodeError''
           (quoted ''utf-8'' @ '' codec can'' @ [CHR 0x27] @
            ''t decode byte 0x89 in position 0: invalid start byte''))),
      (''/data/dates.txt'', Inr demo_dates_text),
      (''/data/contacts.json'', Inr demo_contacts_text)]"

text \<open>The answers of the sample gateway, and what \<^verbatim>\<open>json.loads\<close> makes of them.\<close>

definition answer_for :: "string \<Rightarrow> string" where
  "answer_for task_type =
     ''{'' @ dq ''task_type'' @ '': '' @ dq task_type @ '', '' @ dq ''parameters'' @ '': {}}''"

definition demo_json_loads :: "string \<Rightarrow> py_exn + json" where
  "demo_json_loads s =
     (if s = answer_for ''sort_contacts''
        then Inr (JObj [(''task_type'', JStr ''sort_contacts''), (''parameters'', JObj [])])
      else if s = answer_for ''count_weekdays''
        then Inr (JObj [(''task_type'', JStr ''count_weekdays''), (''parameters'', JObj [])])
      else if s = answer_for ''fly_to_moon''
        then Inr (JObj [(''task_type'', JStr ''fly_to_moon''), (''parameters'', JObj [])])
      else if s = ''{}'' then Inr (JObj [])
      else if s = demo_contacts_text then Inr (JArr demo_contacts)
      else if s = demo_null_contacts_text then Inr (JArr demo_null_contacts)
      else Inl (PyExn ''JSONDecodeError'' ''Expecting value: line 1 column 1 (char 0)''))"

text \<open>The message of \<^verbatim>\<open>a < b\<close> raising on two keys whose first components that are not
  equal are not both lists: it names the types of those two components. The sample
  environment takes it for the second key against the first, the comparison the sort
  makes first.\<close>

definition key_lt_error :: "json \<times> json \<Rightarrow> json \<times> json \<Rightarrow> string" where
  "key_lt_error a b =
     (let (x, y) = (if \<not> py_eq (fst a) (fst b) then (fst a, fst b) else (snd a, snd b))
      in quoted ''<'' @ '' not supported between instances of '' @
         quoted (type_name x) @ '' and '' @ quoted (type_name y))"

text \<open>The sample environment; \<open>answer\<close> is what the gateway gives to every prompt.\<close>

definition demo_env :: "py_exn + string \<Rightarrow> env" where
  "demo_env answer =
     \<lparr>fs_resolve = (\<lambda>p.
         if CHR 0x00 \<in> set p then Inl (PyExn ''ValueError'' ''embedded null byte'')
         else Inr (plain_resolve p)),
      fs_is_file = (\<lambda>p. Inr (map_of demo_files (plain_resolve p) \<noteq> None)),
      fs_exists = (\<lambda>p. Inr (list_ex (\<lambda>f. is_under (plain_resolve p) f) (map fst demo_files))),
      fs_read_text = (\<lambda>p.
         case map_of demo_files (plain_resolve p) of
           Some r \<Rightarrow> r
         | None \<Rightarrow>
             if list_ex (\<lambda>f. is_under (plain_resolve p) f) (map fst demo_files)
             then Inl (PyExn ''IsADirectoryError'' (''[Errno 21] Is a directory: '' @ quoted p))
             else Inl (PyExn ''FileNotFoundError''
                    (''[Errno 2] No such file or directory: '' @ quoted p))),
      fs_write_fault = (\<lambda>p. None),
      llm_get_completion = (\<lambda>prompt. answer),
      json_loads = demo_json_loads,
      strptime_error = (\<lambda>s.
         ''time data '' @ quoted s @ '' does not match format '' @ quoted ''%Y-%m-%d''),
      sorted_error = (\<lambda>ks. case ks of a # b # rest \<Rightarrow> key_lt_error b a | _ \<Rightarrow> []),
      other_handler = (\<lambda>m params. Inr status_success)\<rparr>"

section \<open>Strings: what the operations compute\<close>

lemma py_startswith_iff: "py_startswith s p \<longleftrightarrow> (\<exists>rest. s = p @ rest)"
proof
  assume "py_startswith s p"
  then have "s = p @ drop (length p) s"
    unfolding py_startswith_def by (metis append_take_drop_id)
  then show "\<exists>rest. s = p @ rest" ..
next
  assume "\<exists>rest. s = p @ rest"
  then show "py_startswith s p"
    unfolding py_startswith_def by auto
qed

lemma py_in_iff: "py_in sub s \<longleftrightarrow> (\<exists>u v. s = u @ sub @ v)"
proof (induction s)
  case Nil
  show ?case by auto
next
  case (Cons c cs)
  have here: "take (length sub) (c # cs) = sub \<longleftrightarrow> (\<exists>v. c # cs = sub @ v)"
    using py_startswith_iff [of "c # cs" sub] by (simp add: py_startswith_def)
  show ?case
  proof
    assume "py_in sub (c # cs)"
    then consider "take (length sub) (c # cs) = sub" | "py_in sub cs" by auto
    then show "\<exists>u v. c # cs = u @ sub @ v"
    proof cases
      case 1
      then obtain v where "c # cs = sub @ v" using here by blast
      then have "c # cs = [] @ sub @ v" by simp
      then show ?thesis by blast
    next
      case 2
      then obtain u v where "cs = u @ sub @ v" using Cons.IH by blast
      then have "c # cs = (c # u) @ sub @ v" by simp
      then show ?thesis by blast
    qed
  next
    assume "\<exists>u v. c # cs = u @ sub @ v"
    then obtain u v where uv: "c # cs = u @ sub @ v" by blast
    show "py_in sub (c # cs)"
    proof (cases u)
      case Nil
      with uv have "\<exists>v. c # cs = sub @ v" by auto
      then show ?thesis using here by simp
    next
      case (Cons a u')
      with uv have "cs = u' @ sub @ v" by simp
      then have "py_in sub cs" using Cons.IH by blast
      then show ?thesis by simp
    qed
  qed
qed

lemma py_strip_all_space:
  assumes "\<forall>c\<in>set t. py_isspace c"
  shows "py_strip t = []"
proof -
  from assms have "dropWhile py_isspace t = []" by (induction t) auto
  then show ?thesis unfolding py_strip_def by (simp only: rev.simps dropWhile.simps)
qed

section \<open>The Task Validator\<close>

lemma not_valid_iff:
  "\<not> is_valid_task t \<longleftrightarrow>
     (t = [] \<or> (\<forall>c\<in>set t. py_isspace c) \<or> length (py_strip t) < 5 \<or>
      (\<exists>op\<in>set [''rm '', ''remove'', ''delete'', ''chmod'', ''chown''].
         \<exists>u v. py_lower t = u @ op @ v))"
proof -
  have ws: "(\<forall>c\<in>set t. py_isspace c) \<Longrightarrow> length (py_strip t) < 5"
    by (simp add: py_strip_all_space)
  have "\<not> is_valid_task t \<longleftrightarrow>
      (t = [] \<or> length (py_strip t) < 5 \<or>
       (\<exists>op\<in>set dangerous_ops. py_in op (py_lower t)))"
    by (simp add: is_valid_task_def list_ex_iff)
  also have "\<dots> \<longleftrightarrow> (t = [] \<or> (\<forall>c\<in>set t. py_isspace c) \<or> length (py_strip t) < 5 \<or>
       (\<exists>op\<in>set dangerous_ops. py_in op (py_lower t)))"
    using ws by blast
  finally show ?thesis
    by (simp only: py_in_iff dangerous_ops_def)
qed

text \<open>
  Claim C6. For every task string \<open>t\<close>, \<^verbatim>\<open>is_valid_task(t)\<close> is false exactly when \<open>t\<close> is
  empty, or consists of white space only, or has fewer than 5 characters after trimming,
  or its lower-case form contains one of \<^verbatim>\<open>"rm "\<close>, \<^verbatim>\<open>"remove"\<close>, \<^verbatim>\<open>"delete"\<close>,
  \<^verbatim>\<open>"chmod"\<close>, \<^verbatim>\<open>"chown"\<close> as a substring; for every other \<open>t\<close> it is true.
\<close>

theorem is_valid_task_rejects_iff:
  "is_valid_task t = False \<longleftrightarrow>
     (t = [] \<or> (\<forall>c\<in>set t. py_isspace c) \<or> length (py_strip t) < 5 \<or>
      (\<exists>op\<in>set [''rm '', ''remove'', ''delete'', ''chmod'', ''chown''].
         \<exists>u v. py_lower t = u @ op @ v))"
  using not_valid_iff [of t] by simp

theorem is_valid_task_rejects_iff_witness:
  "is_valid_task ''Please DELETE the old logs'' = False \<and>
   py_lower ''Please DELETE the old logs'' = ''please '' @ ''delete'' @ '' the old logs'' \<and>
   is_valid_task ''sort the contacts file by name'' = True"
proof -
  have low: "py_lower ''Please DELETE the old logs'' = ''please '' @ ''delete'' @ '' the old logs''"
    by code_simp
  then have "\<exists>u v. py_lower ''Please DELETE the old logs'' = u @ ''delete'' @ v"
    by blast
  then have "\<exists>op\<in>set [''rm '', ''remove'', ''delete'', ''chmod'', ''chown''].
      \<exists>u v. py_lower ''Please DELETE the old logs'' = u @ op @ v"
    by simp
  then have "is_valid_task ''Please DELETE the old logs'' = False"
    using is_valid_task_rejects_iff [of "''Please DELETE the old logs''"] by blast
  moreover have "is_valid_task ''sort the contacts file by name'' = True"
    by code_simp
  ultimately show ?thesis using low by blast
qed

lemma run_task_on_invalid:
  assumes "task = [] \<or> \<not> is_valid_task task"
  shows "run_task_on attrs E task = (Inl (HTTPException 400 ''Invalid task description''), [])"
  using assms by (simp add: run_task_on_def run_task_body_on_def run_task_except_def)

text \<open>
  Claim C5. For every task string that is empty, all white space, shorter than 5
  characters after trimming, or that contains one of the deny-list tokens as a
  case-insensitive substring, the Validator rejects, \<^verbatim>\<open>/run\<close> answers 400, and the request
  leaves no event behind: the Classifier, and with it the LLM gateway, is not called.
  This holds for \<^verbatim>\<open>run_task\<close> on a \<^verbatim>\<open>TaskHandler\<close> with any set of attributes.
\<close>

theorem invalid_task_rejected_before_classifier:
  assumes "t = [] \<or> (\<forall>c\<in>set t. py_isspace c) \<or> length (py_strip t) < 5 \<or>
      (\<exists>op\<in>set [''rm '', ''remove'', ''delete'', ''chmod'', ''chown''].
         \<exists>u v. py_lower t = u @ op @ v)"
  shows "is_valid_task t = False \<and>
         run_task E t = (Inl (HTTPException 400 ''Invalid task description''), []) \<and>
         http_status (fst (run_task E t)) = 400 \<and>
         \<not> list_ex is_llm_event (snd (run_task E t)) \<and>
         run_task_on attrs E t = (Inl (HTTPException 400 ''Invalid task description''), [])"
proof -
  from assms have nv: "\<not> is_valid_task t" by (simp only: not_valid_iff)
  then have on: "\<And>as. run_task_on as E t = (Inl (HTTPException 400 ''Invalid task description''), [])"
    by (simp add: run_task_on_invalid)
  then have "run_task E t = (Inl (HTTPException 400 ''Invalid task description''), [])"
    by (simp add: run_task_def)
  with nv on show ?thesis by simp
qed

theorem invalid_task_rejected_before_classifier_witness:
  "py_lower ''rm -rf /data'' = [] @ ''rm '' @ ''-rf /data'' \<and>
   is_valid_task ''rm -rf /data'' = False \<and>
   run_task (demo_env (Inr (answer_for ''sort_contacts''))) ''rm -rf /data''
     = (Inl (HTTPException 400 ''Invalid task description''), []) \<and>
   length (py_strip ''  ab  '') < 5 \<and>
   run_task (demo_env (Inr (answer_for ''sort_contacts''))) ''  ab  ''
     = (Inl (HTTPException 400 ''Invalid task description''), [])"
proof -
  have low: "py_lower ''rm -rf /data'' = [] @ ''rm '' @ ''-rf /data''"
    by code_simp
  then have "\<exists>u v. py_lower ''rm -rf /data'' = u @ ''rm '' @ v"
    by blast
  then have h1: "\<exists>op\<in>set [''rm '', ''remove'', ''delete'', ''chmod'', ''chown''].
      \<exists>u v. py_lower ''rm -rf /data'' = u @ op @ v"
    by simp
  have h2: "length (py_strip ''  ab  '') < 5"
    by code_simp
  show ?thesis
    using low h2
      invalid_task_rejected_before_classifier
        [of "''rm -rf /data''" "demo_env (Inr (answer_for ''sort_contacts''))"] h1
      invalid_task_rejected_before_classifier
        [of "''  ab  ''" "demo_env (Inr (answer_for ''sort_contacts''))"]
    by blast
qed

section \<open>The Path Guard\<close>

lemma guard_accepts_iff:
  "validate_path E p \<longleftrightarrow>
     (\<exists>file_path data_dir rest.
        fs_resolve E p = Inr file_path \<and> fs_resolve E ''/data'' = Inr data_dir \<and>
        file_path = data_dir @ rest \<and> fs_is_file E file_path = Inr True)"
  by (auto simp: validate_path_def validate_path_body_def py_startswith_iff
      split: sum.splits)

lemma validate_path_raises:
  assumes "fs_resolve E p = Inl e \<or> fs_resolve E ''/data'' = Inl e \<or>
           (\<exists>file_path. fs_resolve E p = Inr file_path \<and> fs_is_file E file_path = Inl e)"
  shows "validate_path E p = False"
  using assms
  by (auto simp: validate_path_def validate_path_body_def split: sum.splits)

text \<open>
  Claim C1. For every path string \<open>p\<close>, \<^verbatim>\<open>validate_path(p)\<close> is true if and only if
  resolving \<open>p\<close> gives a path whose string starts with the string of the resolved root
  \<^verbatim>\<open>/data\<close> and that resolved path is an existing regular file; and whenever resolving or
  checking raises an exception, \<^verbatim>\<open>validate_path(p)\<close> is false: the function returns a
  bool and lets no exception out.
\<close>

theorem validate_path_iff:
  "(validate_path E p \<longleftrightarrow>
     (\<exists>file_path data_dir rest.
        fs_resolve E p = Inr file_path \<and> fs_resolve E ''/data'' = Inr data_dir \<and>
        file_path = data_dir @ rest \<and> fs_is_file E file_path = Inr True)) \<and>
   ((\<exists>e. fs_resolve E p = Inl e \<or> fs_resolve E ''/data'' = Inl e \<or>
         (\<exists>file_path. fs_resolve E p = Inr file_path \<and> fs_is_file E file_path = Inl e))
      \<longrightarrow> validate_path E p = False) \<and>
   ((\<exists>e. validate_path_body E p = Inl e) \<longrightarrow> validate_path E p = False)"
proof (intro conjI impI)
  show "validate_path E p \<longleftrightarrow>
     (\<exists>file_path data_dir rest.
        fs_resolve E p = Inr file_path \<and> fs_resolve E ''/data'' = Inr data_dir \<and>
        file_path = data_dir @ rest \<and> fs_is_file E file_path = Inr True)"
    by (rule guard_accepts_iff)
next
  assume "\<exists>e. fs_resolve E p = Inl e \<or> fs_resolve E ''/data'' = Inl e \<or>
         (\<exists>file_path. fs_resolve E p = Inr file_path \<and> fs_is_file E file_path = Inl e)"
  then show "validate_path E p = False"
    using validate_path_raises by blast
next
  assume "\<exists>e. validate_path_body E p = Inl e"
  then show "validate_path E p = False"
    by (auto simp: validate_path_def)
qed

lemma demo_resolve [simp]:
  "fs_resolve (demo_env a) p =
     (if CHR 0x00 \<in> set p then Inl (PyExn ''ValueError'' ''embedded null byte'')
      else Inr (plain_resolve p))"
  by (simp add: demo_env_def)

lemma demo_is_file [simp]:
  "fs_is_file (demo_env a) p = Inr (map_of demo_files (plain_resolve p) \<noteq> None)"
  by (simp add: demo_env_def)

lemma demo_resolved:
  "plain_resolve ''/data'' = ''/data''"
  "plain_resolve ''/data/x.txt'' = ''/data/x.txt''"
  "plain_resolve ''/data2/x.txt'' = ''/data2/x.txt''"
  by code_simp+

lemma demo_regular_files:
  "map_of demo_files ''/data/x.txt'' = Some (Inr ''hello'')"
  "map_of demo_files ''/data2/x.txt'' = Some (Inr ''outside the root'')"
  by (simp_all add: demo_files_def)

text \<open>The examples of the specification, on the sample file system: a regular file below
  \<^verbatim>\<open>/data\<close> is accepted; \<^verbatim>\<open>/etc/passwd\<close>, \<^verbatim>\<open>/data/../etc/passwd\<close> and the directory
  \<^verbatim>\<open>/data\<close> are rejected; a path that cannot be resolved is rejected.\<close>

theorem validate_path_iff_witness:
  "validate_path (demo_env (Inr [])) ''/data/x.txt'' = True \<and>
   validate_path (demo_env (Inr [])) ''/etc/passwd'' = False \<and>
   validate_path (demo_env (Inr [])) ''/data/../etc/passwd'' = False \<and>
   validate_path (demo_env (Inr [])) ''/data'' = False \<and>
   fs_resolve (demo_env (Inr [])) [CHR ''/'', CHR 0x00]
     = Inl (PyExn ''ValueError'' ''embedded null byte'') \<and>
   validate_path (demo_env (Inr [])) [CHR ''/'', CHR 0x00] = False"
proof -
  let ?E = "demo_env (Inr [])"
  have "fs_resolve ?E ''/data/x.txt'' = Inr ''/data/x.txt'' \<and>
        fs_resolve ?E ''/data'' = Inr ''/data'' \<and>
        ''/data/x.txt'' = ''/data'' @ ''/x.txt'' \<and>
        fs_is_file ?E ''/data/x.txt'' = Inr True"
    by (simp add: demo_resolved demo_regular_files)
  then have a: "validate_path ?E ''/data/x.txt'' = True"
    using validate_path_iff [of ?E "''/data/x.txt''"] by blast
  have r: "fs_resolve ?E [CHR ''/'', CHR 0x00] = Inl (PyExn ''ValueError'' ''embedded null byte'')"
    by simp
  then have b: "validate_path ?E [CHR ''/'', CHR 0x00] = False"
    using validate_path_iff [of ?E "[CHR ''/'', CHR 0x00]"] by blast
  have c: "validate_path ?E ''/etc/passwd'' = False"
    "validate_path ?E ''/data/../etc/passwd'' = False"
    "validate_path ?E ''/data'' = False"
    by code_simp+
  from a b c r show ?thesis by simp
qed

text \<open>
  Claim C2. There is a path that does not lie below the allowed root \<^verbatim>\<open>/data\<close> and that
  \<^verbatim>\<open>validate_path\<close> accepts: on the sample file system \<^verbatim>\<open>/data2/x.txt\<close> is a regular
  file of the sibling directory \<^verbatim>\<open>/data2\<close>, its resolved string starts with
  \<^verbatim>\<open>/data\<close>, and the guard returns true.
\<close>

theorem sibling_prefix_false_accept:
  "fs_resolve (demo_env a) ''/data'' = Inr ''/data'' \<and>
   fs_resolve (demo_env a) ''/data2/x.txt'' = Inr ''/data2/x.txt'' \<and>
   fs_is_file (demo_env a) ''/data2/x.txt'' = Inr True \<and>
   is_under ''/data'' ''/data2/x.txt'' = False \<and>
   validate_path (demo_env a) ''/data2/x.txt'' = True"
proof -
  have r: "fs_resolve (demo_env a) ''/data'' = Inr ''/data''"
    "fs_resolve (demo_env a) ''/data2/x.txt'' = Inr ''/data2/x.txt''"
    by (simp_all add: demo_resolved)
  have f: "fs_is_file (demo_env a) ''/data2/x.txt'' = Inr True"
    by (simp add: demo_resolved demo_regular_files)
  have u: "is_under ''/data'' ''/data2/x.txt'' = False"
    by code_simp
  have "''/data2/x.txt'' = ''/data'' @ ''2/x.txt''" by simp
  with r f have "validate_path (demo_env a) ''/data2/x.txt''"
    unfolding guard_accepts_iff by blast
  with r f u show ?thesis by simp
qed

theorem sibling_prefix_false_accept_witness:
  "is_under ''/data'' ''/data2/x.txt'' = False \<and>
   is_under ''/data'' ''/data/x.txt'' = True \<and>
   validate_path (demo_env (Inr [])) ''/data2/x.txt'' = True"
proof -
  have "is_under ''/data'' ''/data/x.txt'' = True" by code_simp
  then show ?thesis
    using sibling_prefix_false_accept [of "Inr []"] by simp
qed

section \<open>The endpoint \<^verbatim>\<open>GET /read\<close>\<close>

lemma read_file_cases:
  "(\<not> validate_path E p \<longrightarrow>
      read_file E p = Inl (HTTPException 400 ''Invalid path: Must be within /data directory'')) \<and>
   (validate_path E p \<and> fs_exists E p = Inr False \<longrightarrow>
      read_file E p = Inl (HTTPException 404 (''File not found: '' @ p))) \<and>
   (validate_path E p \<and> fs_exists E p = Inr True \<and> fs_read_text E p = Inr content \<longrightarrow>
      read_file E p = Inr content) \<and>
   (validate_path E p \<and> fs_exists E p = Inr True \<and> fs_read_text E p = Inl e \<and>
    \<not> is_HTTPException e \<longrightarrow>
      read_file E p = Inl (HTTPException 500 (''Internal server error: '' @ exn_str e)))"
  by (simp add: read_file_def read_file_body_def read_file_except_def)

text \<open>
  Claim C3, as stated: for every request \<^verbatim>\<open>GET /read?path=p\<close>, a path the guard rejects
  gives 400, an accepted path whose file is absent gives 404, and an accepted path whose
  file exists gives 200 with the text of the file. The last part fails where the file
  exists and cannot be read as text: \<^verbatim>\<open>/data/credit-card.png\<close> of the sample is a regular
  file below \<^verbatim>\<open>/data\<close>, \<^verbatim>\<open>read_text\<close> raises \<^verbatim>\<open>UnicodeDecodeError\<close>, and the
  \<^verbatim>\<open>except\<close> clause answers 500.
\<close>

theorem read_file_unreadable_counterexample:
  "validate_path (demo_env (Inr [])) ''/data/credit-card.png'' = True \<and>
   fs_exists (demo_env (Inr [])) ''/data/credit-card.png'' = Inr True \<and>
   http_status (read_file (demo_env (Inr [])) ''/data/credit-card.png'') = 500"
  by code_simp

text \<open>
  Claim C3, amended: a path the guard rejects gives 400; an accepted path for which
  \<^verbatim>\<open>exists()\<close> is false gives 404; an accepted path whose file exists gives 200 with the
  text of the file when reading it succeeds, and 500 when reading it raises.
\<close>

theorem read_file_status:
  "(\<not> validate_path E p \<longrightarrow>
      read_file E p = Inl (HTTPException 400 ''Invalid path: Must be within /data directory'') \<and>
      http_status (read_file E p) = 400) \<and>
   (validate_path E p \<and> fs_exists E p = Inr False \<longrightarrow>
      read_file E p = Inl (HTTPException 404 (''File not found: '' @ p)) \<and>
      http_status (read_file E p) = 404) \<and>
   (validate_path E p \<and> fs_exists E p = Inr True \<and> fs_read_text E p = Inr content \<longrightarrow>
      read_file E p = Inr content \<and> http_status (read_file E p) = 200) \<and>
   (validate_path E p \<and> fs_exists E p = Inr True \<and> fs_read_text E p = Inl e \<and>
    \<not> is_HTTPException e \<longrightarrow>
      read_file E p = Inl (HTTPException 500 (''Internal server error: '' @ exn_str e)) \<and>
      http_status (read_file E p) = 500)"
  using read_file_cases [of E p content e] by simp

text \<open>On the sample: \<^verbatim>\<open>/etc/passwd\<close> gives 400, \<^verbatim>\<open>/data/x.txt\<close> gives its text, the
  picture gives 500, and 404 is the answer when the file is gone by the time
  \<^verbatim>\<open>exists()\<close> looks (in an unchanged file system an accepted path exists).\<close>

theorem read_file_status_witness:
  "read_file (demo_env (Inr [])) ''/etc/passwd''
     = Inl (HTTPException 400 ''Invalid path: Must be within /data directory'') \<and>
   read_file (demo_env (Inr [])) ''/data/x.txt'' = Inr ''hello'' \<and>
   read_file ((demo_env (Inr []))\<lparr>fs_exists := (\<lambda>p. Inr False)\<rparr>) ''/data/x.txt''
     = Inl (HTTPException 404 ''File not found: /data/x.txt'') \<and>
   http_status (read_file (demo_env (Inr [])) ''/data/credit-card.png'') = 500"
proof -
  let ?E = "demo_env (Inr [])"
  let ?G = "(demo_env (Inr []))\<lparr>fs_exists := (\<lambda>p. Inr False)\<rparr>"
  have h1: "\<not> validate_path ?E ''/etc/passwd''"
    by code_simp
  have h2: "validate_path ?E ''/data/x.txt'' \<and> fs_exists ?E ''/data/x.txt'' = Inr True \<and>
            fs_read_text ?E ''/data/x.txt'' = Inr ''hello''"
    by code_simp
  have h3: "validate_path ?G ''/data/x.txt'' \<and> fs_exists ?G ''/data/x.txt'' = Inr False"
    by code_simp
  have h4: "validate_path ?E ''/data/credit-card.png'' \<and>
            fs_exists ?E ''/data/credit-card.png'' = Inr True \<and>
            fs_read_text ?E ''/data/credit-card.png'' = Inl (PyExn ''UnicodeDecodeError''
              (quoted ''utf-8'' @ '' codec can'' @ [CHR 0x27] @
               ''t decode byte 0x89 in position 0: invalid start byte'')) \<and>
            \<not> is_HTTPException (PyExn ''UnicodeDecodeError''
              (quoted ''utf-8'' @ '' codec can'' @ [CHR 0x27] @
               ''t decode byte 0x89 in position 0: invalid start byte''))"
    by code_simp
  have "read_file ?E ''/etc/passwd''
          = Inl (HTTPException 400 ''Invalid path: Must be within /data directory'')"
    using h1 read_file_status [of ?E "''/etc/passwd''"] by blast
  moreover have "read_file ?E ''/data/x.txt'' = Inr ''hello''"
    using h2 read_file_status [of ?E "''/data/x.txt''" "''hello''"] by blast
  moreover have "read_file ?G ''/data/x.txt''
          = Inl (HTTPException 404 (''File not found: '' @ ''/data/x.txt''))"
    using h3 read_file_status [of ?G "''/data/x.txt''"] by blast
  moreover have "http_status (read_file ?E ''/data/credit-card.png'') = 500"
    using h4 read_file_status [of ?E "''/data/credit-card.png''" _ "PyExn ''UnicodeDecodeError''
              (quoted ''utf-8'' @ '' codec can'' @ [CHR 0x27] @
               ''t decode byte 0x89 in position 0: invalid start byte'')"] by blast
  ultimately show ?thesis by simp
qed

section \<open>The dispatcher and the endpoint \<^verbatim>\<open>POST /run\<close>\<close>

subsection \<open>The texts of the dispatcher's own exceptions\<close>

lemma py_in_set: "py_in sub s \<Longrightarrow> set sub \<subseteq> set s"
  unfolding py_in_iff by auto

lemma py_str_nat_digits: "set (py_str_nat n) \<subseteq> digit_char ` {0..<10}"
proof (induction n rule: py_str_nat.induct)
  case (1 n)
  show ?case
  proof (cases "n < 10")
    case True
    then show ?thesis by (subst py_str_nat.simps) auto
  next
    case False
    have "n mod 10 \<in> {0..<10}" by simp
    with False 1 show ?thesis by (subst py_str_nat.simps) auto
  qed
qed


lemma digit_chars: "digit_char ` {0..<10} = set ''0123456789''"
proof -
  have "{0..<10::nat} = set [0,1,2,3,4,5,6,7,8,9]" by auto
  then have "digit_char ` {0..<10} = set (map digit_char [0,1,2,3,4,5,6,7,8,9])" by simp
  also have "map digit_char [0,1,2,3,4,5,6,7,8,9] = ''0123456789''" by code_simp
  finally show ?thesis .
qed


lemma unknown_type_text_string:
  "py_in ''Invalid'' (''Unknown task type: '' @ s) = py_in ''Invalid'' s"
  "py_in ''Failed to parse'' (''Unknown task type: '' @ s) = py_in ''Failed to parse'' s"
  by simp_all


lemma py_str_nat_chars: "set (py_str_nat n) \<subseteq> set ''0123456789''"
  using py_str_nat_digits [of n] by (simp only: digit_chars)



lemma py_str_int_chars:
  assumes "c \<notin> set ''-0123456789''"
  shows "c \<notin> set (py_str_int i)"
proof (cases "i < 0")
  case True
  from assms have c: "c \<noteq> CHR ''-''" "c \<notin> set ''0123456789''" by simp_all
  have "set (py_str_nat (nat (- i))) \<subseteq> set ''0123456789''" by (rule py_str_nat_chars)
  with c(2) have "c \<notin> set (py_str_nat (nat (- i)))" by blast
  with c(1) have "c \<notin> set (''-'' @ py_str_nat (nat (- i)))" by simp
  with True show ?thesis by (simp add: py_str_int_def)
next
  case False
  from assms have "c \<notin> set ''0123456789''" by simp
  moreover have "set (py_str_nat (nat i)) \<subseteq> set ''0123456789''" by (rule py_str_nat_chars)
  ultimately have "c \<notin> set (py_str_nat (nat i))" by blast
  with False show ?thesis by (simp add: py_str_int_def)
qed

lemma number_text:
  "\<not> py_in ''Invalid'' (py_str_int i)" "\<not> py_in ''Failed to parse'' (py_str_int i)"
proof -
  have "CHR ''I'' \<notin> set (py_str_int i)" "CHR ''F'' \<notin> set (py_str_int i)"
    by (rule py_str_int_chars, simp)+
  moreover have "CHR ''I'' \<in> set ''Invalid''" "CHR ''F'' \<in> set ''Failed to parse''" by simp_all
  ultimately show "\<not> py_in ''Invalid'' (py_str_int i)" "\<not> py_in ''Failed to parse'' (py_str_int i)"
    using py_in_set [of "''Invalid''" "py_str_int i"]
          py_in_set [of "''Failed to parse''" "py_str_int i"] by blast+
qed

lemma attribute_error_text:
  "list_all (\<lambda>m.
     \<not> py_in ''Invalid'' (quoted ''TaskHandler'' @ '' object has no attribute '' @ quoted m) \<and>
     \<not> py_in ''Failed to parse'' (quoted ''TaskHandler'' @ '' object has no attribute '' @ quoted m))
     (map snd registry)"
  by code_simp

lemma classify_task_eq:
  "classify_task E task =
     ((case llm_get_completion E (classify_prompt task) of
        Inl e \<Rightarrow> Inl e | Inr response \<Rightarrow> json_loads E response),
      [LLMCompletion (classify_prompt task)])"
  by (simp add: classify_task_def split: sum.splits)

lemma build_handlers_ok:
  "build_handlers attrs entries = Inr h \<Longrightarrow> h = entries"
  by (induction attrs entries arbitrary: h rule: build_handlers.induct)
     (auto split: if_splits sum.splits)

lemma build_handlers_error:
  "build_handlers attrs entries = Inl e \<Longrightarrow>
     \<exists>m\<in>set (map snd entries). e = PyExn ''AttributeError''
             (quoted ''TaskHandler'' @ '' object has no attribute '' @ quoted m)"
  by (induction attrs entries rule: build_handlers.induct)
     (auto split: if_splits sum.splits)

lemma TaskHandler_build_handlers:
  "build_handlers TaskHandler_attributes registry =
     Inl (PyExn ''AttributeError''
            (quoted ''TaskHandler'' @ '' object has no attribute '' @ quoted ''_handle_api_fetch''))"
  by code_simp


lemma unhashable_text:
  "\<not> py_in ''Invalid'' (''unhashable type: '' @ quoted ''list'')"
  "\<not> py_in ''Failed to parse'' (''unhashable type: '' @ quoted ''list'')"
  "\<not> py_in ''Invalid'' (''unhashable type: '' @ quoted ''dict'')"
  "\<not> py_in ''Failed to parse'' (''unhashable type: '' @ quoted ''dict'')"
  by code_simp+

lemma unknown_type_text_const:
  "\<not> py_in ''Invalid'' ''Unknown task type: None''"
  "\<not> py_in ''Failed to parse'' ''Unknown task type: None''"
  "\<not> py_in ''Invalid'' (''Unknown task type: '' @ (if b then ''True'' else ''False''))"
  "\<not> py_in ''Failed to parse'' (''Unknown task type: '' @ (if b then ''True'' else ''False''))"
  by simp_all

lemma lookup_handler_unknown:
  assumes "\<forall>k\<in>set (map fst registry). task_type \<noteq> JStr k"
  shows "\<exists>e. lookup_handler registry task_type = Inl e \<and> \<not> is_HTTPException e \<and>
           ((\<forall>s. task_type = JStr s \<longrightarrow> \<not> py_in ''Invalid'' s \<and> \<not> py_in ''Failed to parse'' s)
            \<longrightarrow> \<not> py_in ''Invalid'' (exn_str e) \<and> \<not> py_in ''Failed to parse'' (exn_str e))"
proof (cases task_type)
  case (JStr s)
  with assms have "s \<notin> fst ` set registry" by auto
  then have "map_of registry s = None" by (simp add: map_of_eq_None_iff)
  with JStr show ?thesis by (simp add: unknown_type_text_string)
next
  case (JNum n)
  then show ?thesis by (simp add: number_text)
next
  case (JBool b)
  then show ?thesis using unknown_type_text_const(3,4) [of b] by simp
next
  case JNull
  then show ?thesis using unknown_type_text_const(1,2) by simp
next
  case (JArr vs)
  then show ?thesis using unhashable_text by simp
next
  case (JObj kvs)
  then show ?thesis using unhashable_text by simp
qed

lemma handle_task_on_unknown:
  assumes llm: "llm_get_completion E (classify_prompt task) = Inr response"
    and js: "json_loads E response = Inr classification"
    and tt: "py_getitem classification ''task_type'' = Inr task_type"
    and ps: "py_getitem classification ''parameters'' = Inr params"
    and out: "\<forall>k\<in>set (map fst registry). task_type \<noteq> JStr k"
  shows "\<exists>e. handle_task_on attrs E task = (Inl e, [LLMCompletion (classify_prompt task)]) \<and>
           \<not> is_HTTPException e \<and>
           ((\<forall>s. task_type = JStr s \<longrightarrow> \<not> py_in ''Invalid'' s \<and> \<not> py_in ''Failed to parse'' s)
            \<longrightarrow> \<not> py_in ''Invalid'' (exn_str e) \<and> \<not> py_in ''Failed to parse'' (exn_str e))"
proof (cases "build_handlers attrs registry")
  case (Inl e)
  then obtain m where m: "m \<in> set (map snd registry)"
    and e: "e = PyExn ''AttributeError''
             (quoted ''TaskHandler'' @ '' object has no attribute '' @ quoted m)"
    using build_handlers_error by blast
  from m attribute_error_text
  have "\<not> py_in ''Invalid'' (exn_str e) \<and> \<not> py_in ''Failed to parse'' (exn_str e)"
    unfolding e list_all_iff exn_str.simps by blast
  moreover have "handle_task_on attrs E task = (Inl e, [LLMCompletion (classify_prompt task)])"
    using llm js tt ps Inl by (simp add: handle_task_on_def classify_task_eq)
  moreover have "\<not> is_HTTPException e" by (simp add: e)
  ultimately show ?thesis by blast
next
  case (Inr h)
  then have h: "h = registry" by (rule build_handlers_ok)
  from lookup_handler_unknown [OF out] obtain e
    where e: "lookup_handler registry task_type = Inl e" "\<not> is_HTTPException e"
      "(\<forall>s. task_type = JStr s \<longrightarrow> \<not> py_in ''Invalid'' s \<and> \<not> py_in ''Failed to parse'' s)
            \<longrightarrow> \<not> py_in ''Invalid'' (exn_str e) \<and> \<not> py_in ''Failed to parse'' (exn_str e)"
    by blast
  have "handle_task_on attrs E task = (Inl e, [LLMCompletion (classify_prompt task)])"
    using llm js tt ps Inr h e(1) by (simp add: handle_task_on_def classify_task_eq)
  with e(2,3) show ?thesis by blast
qed

lemma run_task_on_failure:
  assumes "task \<noteq> []" "is_valid_task task" "handle_task_on attrs E task = (Inl e, tr)"
  shows "run_task_on attrs E task = (Inl (run_task_except e), tr)"
  using assms by (simp add: run_task_on_def run_task_body_on_def)

lemma run_task_except_status:
  assumes "\<not> is_HTTPException e"
  shows "http_status (Inl (run_task_except e)) =
     (if py_in ''Invalid'' (exn_str e) \<or> py_in ''Failed to parse'' (exn_str e) then 400 else 500)"
  using assms by (simp add: run_task_except_def)

text \<open>
  The class body of \<^verbatim>\<open>TaskHandler\<close> defines ten of the seventeen methods the dict
  literal names. Evaluating the literal raises \<^verbatim>\<open>AttributeError\<close> at
  \<^verbatim>\<open>self._handle_api_fetch\<close>, so \<^verbatim>\<open>handle_task\<close> as the repository has it raises that
  error for every classification that has both fields, whatever its task type. The
  theorems below are stated for a \<^verbatim>\<open>TaskHandler\<close> with any set of attributes
  (\<open>handle_task_on attrs\<close>, \<open>run_task_on attrs\<close>), so they hold for the class as it is and
  for a class that defines all seventeen methods.
\<close>

lemma handle_task_always_attribute_error:
  assumes "llm_get_completion E (classify_prompt task) = Inr response"
    and "json_loads E response = Inr classification"
    and "py_getitem classification ''task_type'' = Inr task_type"
    and "py_getitem classification ''parameters'' = Inr params"
  shows "handle_task E task =
     (Inl (PyExn ''AttributeError''
            (quoted ''TaskHandler'' @ '' object has no attribute '' @ quoted ''_handle_api_fetch'')),
      [LLMCompletion (classify_prompt task)])"
  using assms
  by (simp add: handle_task_def handle_task_on_def classify_task_eq TaskHandler_build_handlers)

subsection \<open>Classification\<close>

text \<open>
  Claim C7, as stated: for every text the gateway answers, the Task Classifier fails if
  the answer is not valid JSON or if the parsed JSON lacks one of the fields
  \<^verbatim>\<open>task_type\<close> and \<^verbatim>\<open>parameters\<close>, and otherwise returns the parsed record. The second
  part fails: \<^verbatim>\<open>_classify_task\<close> checks no field. For the answer \<^verbatim>\<open>{}\<close> it returns the
  empty dict.
\<close>

theorem classify_task_missing_fields_counterexample:
  "llm_get_completion (demo_env (Inr ''{}'')) (classify_prompt ''sort the contacts file by name'')
     = Inr ''{}'' \<and>
   json_loads (demo_env (Inr ''{}'')) ''{}'' = Inr (JObj []) \<and>
   py_getitem (JObj []) ''task_type'' = Inl (PyExn ''KeyError'' (quoted ''task_type'')) \<and>
   fst (classify_task (demo_env (Inr ''{}'')) ''sort the contacts file by name'') = Inr (JObj [])"
  by code_simp

text \<open>
  Claim C7, amended: for every text the gateway answers, \<^verbatim>\<open>_classify_task\<close> raises the
  error of \<^verbatim>\<open>json.loads\<close> if the answer is not valid JSON (and \<^verbatim>\<open>handle_task\<close> raises
  it on), and otherwise returns the parsed value as it is, whether or not it has the
  fields. When the parsed value is a dict without \<^verbatim>\<open>task_type\<close>, or with
  \<^verbatim>\<open>task_type\<close> and without \<^verbatim>\<open>parameters\<close>, it is \<^verbatim>\<open>handle_task\<close> that fails, with
  the \<^verbatim>\<open>KeyError\<close> of that field, after the one request to the gateway and before the
  registry is built or any handler is called.
\<close>

theorem classify_task_parses_only:
  assumes "llm_get_completion E (classify_prompt task) = Inr response"
  shows
    "(\<forall>e. json_loads E response = Inl e \<longrightarrow>
        classify_task E task = (Inl e, [LLMCompletion (classify_prompt task)]) \<and>
        handle_task_on attrs E task = (Inl e, [LLMCompletion (classify_prompt task)])) \<and>
     (\<forall>v. json_loads E response = Inr v \<longrightarrow>
        classify_task E task = (Inr v, [LLMCompletion (classify_prompt task)])) \<and>
     (\<forall>kvs. json_loads E response = Inr (JObj kvs) \<and> map_of kvs ''task_type'' = None \<longrightarrow>
        handle_task_on attrs E task =
          (Inl (PyExn ''KeyError'' (quoted ''task_type'')), [LLMCompletion (classify_prompt task)])) \<and>
     (\<forall>kvs. json_loads E response = Inr (JObj kvs) \<and> map_of kvs ''task_type'' \<noteq> None \<and>
            map_of kvs ''parameters'' = None \<longrightarrow>
        handle_task_on attrs E task =
          (Inl (PyExn ''KeyError'' (quoted ''parameters'')), [LLMCompletion (classify_prompt task)]))"
  using assms
  by (auto simp: classify_task_eq handle_task_on_def)

theorem classify_task_parses_only_witness:
  "classify_task (demo_env (Inr ''sorry'')) ''sort the contacts file by name'' =
     (Inl (PyExn ''JSONDecodeError'' ''Expecting value: line 1 column 1 (char 0)''),
      [LLMCompletion (classify_prompt ''sort the contacts file by name'')]) \<and>
   classify_task (demo_env (Inr ''{}'')) ''sort the contacts file by name'' =
     (Inr (JObj []), [LLMCompletion (classify_prompt ''sort the contacts file by name'')]) \<and>
   handle_task_on TaskHandler_attributes (demo_env (Inr ''{}'')) ''sort the contacts file by name'' =
     (Inl (PyExn ''KeyError'' (quoted ''task_type'')),
      [LLMCompletion (classify_prompt ''sort the contacts file by name'')])"
proof -
  let ?t = "''sort the contacts file by name''"
  have a: "llm_get_completion (demo_env (Inr ''sorry'')) (classify_prompt ?t) = Inr ''sorry''"
    by (simp add: demo_env_def)
  have a': "json_loads (demo_env (Inr ''sorry'')) ''sorry''
      = Inl (PyExn ''JSONDecodeError'' ''Expecting value: line 1 column 1 (char 0)'')"
    by code_simp
  have b: "llm_get_completion (demo_env (Inr ''{}'')) (classify_prompt ?t) = Inr ''{}''"
    by (simp add: demo_env_def)
  have b': "json_loads (demo_env (Inr ''{}'')) ''{}'' = Inr (JObj [])"
    by code_simp
  have m: "map_of ([] :: (string \<times> json) list) ''task_type'' = None" by simp
  show ?thesis
    using classify_task_parses_only [OF a, of TaskHandler_attributes] a'
      classify_task_parses_only [OF b, of TaskHandler_attributes] b' m
    by blast
qed

subsection \<open>Unknown task types\<close>

text \<open>
  Claim C4, as stated: for every classification whose \<^verbatim>\<open>task_type\<close> is outside the
  registry's keys, dispatch fails before any handler executes, and \<^verbatim>\<open>/run\<close> answers 400.
  The status fails: the exception is not an \<^verbatim>\<open>HTTPException\<close>, its text has neither
  \<^verbatim>\<open>Invalid\<close> nor \<^verbatim>\<open>Failed to parse\<close>, and the \<^verbatim>\<open>except\<close> clause of \<^verbatim>\<open>run_task\<close>
  answers 500. This is so for the class as it is and for a class with all seventeen
  methods, where the exception is \<^verbatim>\<open>ValueError("Unknown task type: fly_to_moon")\<close>.
\<close>

theorem unknown_task_type_counterexample:
  "is_valid_task ''fly me to the moon'' = True \<and>
   fst (classify_task (demo_env (Inr (answer_for ''fly_to_moon''))) ''fly me to the moon'')
     = Inr (JObj [(''task_type'', JStr ''fly_to_moon''), (''parameters'', JObj [])]) \<and>
   map_of registry ''fly_to_moon'' = None \<and>
   http_status (fst (run_task (demo_env (Inr (answer_for ''fly_to_moon''))) ''fly me to the moon''))
     = 500 \<and>
   fst (run_task_on (map snd registry) (demo_env (Inr (answer_for ''fly_to_moon'')))
          ''fly me to the moon'')
     = Inl (HTTPException 500 ''Internal server error: Unknown task type: fly_to_moon'')"
  by code_simp

text \<open>
  Claim C4, amended: for every classification whose \<^verbatim>\<open>task_type\<close> is outside the
  registry's keys, \<^verbatim>\<open>handle_task\<close> raises an exception before any handler executes: the
  request leaves the one completion request behind, no handler call and no file. \<^verbatim>\<open>/run\<close>
  answers 400 or 500 by the text of the exception (400 exactly when it contains
  \<^verbatim>\<open>Invalid\<close> or \<^verbatim>\<open>Failed to parse\<close>), and 500 whenever the task type is not a
  string that contains \<^verbatim>\<open>Invalid\<close> or \<^verbatim>\<open>Failed to parse\<close>.
\<close>

theorem unknown_task_type_fails_before_handlers:
  assumes "task \<noteq> []" and "is_valid_task task"
    and "llm_get_completion E (classify_prompt task) = Inr response"
    and "json_loads E response = Inr classification"
    and "py_getitem classification ''task_type'' = Inr task_type"
    and "py_getitem classification ''parameters'' = Inr params"
    and "\<forall>k\<in>set (map fst registry). task_type \<noteq> JStr k"
  shows "(\<exists>e. handle_task_on attrs E task = (Inl e, [LLMCompletion (classify_prompt task)]) \<and>
              \<not> is_HTTPException e \<and>
              http_status (fst (run_task_on attrs E task)) =
                (if py_in ''Invalid'' (exn_str e) \<or> py_in ''Failed to parse'' (exn_str e)
                 then 400 else 500)) \<and>
         \<not> list_ex is_handler_event (snd (run_task_on attrs E task)) \<and>
         (http_status (fst (run_task_on attrs E task)) = 400 \<or>
          http_status (fst (run_task_on attrs E task)) = 500) \<and>
         ((\<forall>s. task_type = JStr s \<longrightarrow> \<not> py_in ''Invalid'' s \<and> \<not> py_in ''Failed to parse'' s)
            \<longrightarrow> http_status (fst (run_task_on attrs E task)) = 500)"
proof -
  from handle_task_on_unknown [OF assms(3-7), of attrs] obtain e
    where e: "handle_task_on attrs E task = (Inl e, [LLMCompletion (classify_prompt task)])"
      "\<not> is_HTTPException e"
      "(\<forall>s. task_type = JStr s \<longrightarrow> \<not> py_in ''Invalid'' s \<and> \<not> py_in ''Failed to parse'' s)
            \<longrightarrow> \<not> py_in ''Invalid'' (exn_str e) \<and> \<not> py_in ''Failed to parse'' (exn_str e)"
    by blast
  have run: "run_task_on attrs E task =
      (Inl (run_task_except e), [LLMCompletion (classify_prompt task)])"
    using assms(1,2) e(1) by (rule run_task_on_failure)
  have st: "http_status (fst (run_task_on attrs E task)) =
     (if py_in ''Invalid'' (exn_str e) \<or> py_in ''Failed to parse'' (exn_str e) then 400 else 500)"
    using run run_task_except_status [OF e(2)] by simp
  have "\<not> list_ex is_handler_event (snd (run_task_on attrs E task))"
    using run by simp
  moreover have "http_status (fst (run_task_on attrs E task)) = 400 \<or>
          http_status (fst (run_task_on attrs E task)) = 500"
    using st by simp
  moreover have "(\<forall>s. task_type = JStr s \<longrightarrow> \<not> py_in ''Invalid'' s \<and> \<not> py_in ''Failed to parse'' s)
            \<longrightarrow> http_status (fst (run_task_on attrs E task)) = 500"
    using st e(3) by simp
  ultimately show ?thesis using e(1,2) st by blast
qed

theorem unknown_task_type_fails_before_handlers_witness:
  "http_status (fst (run_task_on (map snd registry)
      (demo_env (Inr (answer_for ''fly_to_moon''))) ''fly me to the moon'')) = 500 \<and>
   \<not> list_ex is_handler_event (snd (run_task_on (map snd registry)
      (demo_env (Inr (answer_for ''fly_to_moon''))) ''fly me to the moon'')) \<and>
   http_status (fst (run_task_on TaskHandler_attributes
      (demo_env (Inr (answer_for ''fly_to_moon''))) ''fly me to the moon'')) = 500"
proof -
  let ?E = "demo_env (Inr (answer_for ''fly_to_moon''))"
  let ?t = "''fly me to the moon''"
  let ?c = "JObj [(''task_type'', JStr ''fly_to_moon''), (''parameters'', JObj [])]"
  have h1: "?t \<noteq> []" by simp
  have h2: "is_valid_task ?t" by code_simp
  have h3: "llm_get_completion ?E (classify_prompt ?t) = Inr (answer_for ''fly_to_moon'')"
    by (simp add: demo_env_def)
  have h4: "json_loads ?E (answer_for ''fly_to_moon'') = Inr ?c"
    by code_simp
  have h5: "py_getitem ?c ''task_type'' = Inr (JStr ''fly_to_moon'')" by simp
  have h6: "py_getitem ?c ''parameters'' = Inr (JObj [])" by simp
  have h7: "\<forall>k\<in>set (map fst registry). JStr ''fly_to_moon'' \<noteq> JStr k"
    by (simp add: registry_def)
  have h8: "\<forall>s. JStr ''fly_to_moon'' = JStr s \<longrightarrow>
      \<not> py_in ''Invalid'' s \<and> \<not> py_in ''Failed to parse'' s"
    by simp
  show ?thesis
    using unknown_task_type_fails_before_handlers [OF h1 h2 h3 h4 h5 h6 h7, of "map snd registry"]
      unknown_task_type_fails_before_handlers [OF h1 h2 h3 h4 h5 h6 h7, of TaskHandler_attributes]
      h8
    by blast
qed

subsection \<open>Status codes of failures\<close>

text \<open>
  Claim C10. For every exception other than an \<^verbatim>\<open>HTTPException\<close> that \<^verbatim>\<open>handle_task\<close>
  raises during a \<^verbatim>\<open>/run\<close> request whose task passed validation, the status of the
  response is 400 if and only if the text of the exception contains \<^verbatim>\<open>Invalid\<close> or
  \<^verbatim>\<open>Failed to parse\<close>, and 500 otherwise: the text decides, the class of the exception
  does not occur in the result.
\<close>

theorem run_task_status_by_message:
  assumes "task \<noteq> []" and "is_valid_task task"
    and "handle_task_on attrs E task = (Inl e, tr)"
    and "\<not> is_HTTPException e"
  shows "http_status (fst (run_task_on attrs E task)) =
           (if (\<exists>u v. exn_str e = u @ ''Invalid'' @ v) \<or>
               (\<exists>u v. exn_str e = u @ ''Failed to parse'' @ v)
            then 400 else 500)"
proof -
  have "run_task_on attrs E task = (Inl (run_task_except e), tr)"
    using assms(1-3) by (rule run_task_on_failure)
  then have "http_status (fst (run_task_on attrs E task)) =
     (if py_in ''Invalid'' (exn_str e) \<or> py_in ''Failed to parse'' (exn_str e) then 400 else 500)"
    using run_task_except_status [OF assms(4)] by simp
  then show ?thesis by (simp only: py_in_iff)
qed

theorem run_task_status_by_message_witness:
  "http_status (fst (run_task
      (demo_env (Inl (PyExn ''Exception'' ''LLM request failed: Invalid API key'')))
      ''sort the contacts file by name'')) = 400 \<and>
   http_status (fst (run_task
      (demo_env (Inl (PyExn ''Exception'' ''LLM request failed: upstream timeout'')))
      ''sort the contacts file by name'')) = 500"
proof -
  let ?t = "''sort the contacts file by name''"
  let ?e1 = "PyExn ''Exception'' ''LLM request failed: Invalid API key''"
  let ?e2 = "PyExn ''Exception'' ''LLM request failed: upstream timeout''"
  have h1: "?t \<noteq> []" by simp
  have h2: "is_valid_task ?t" by code_simp
  have a: "handle_task_on TaskHandler_attributes (demo_env (Inl ?e1)) ?t
             = (Inl ?e1, [LLMCompletion (classify_prompt ?t)])"
    by (simp add: handle_task_on_def classify_task_eq demo_env_def)
  have b: "handle_task_on TaskHandler_attributes (demo_env (Inl ?e2)) ?t
             = (Inl ?e2, [LLMCompletion (classify_prompt ?t)])"
    by (simp add: handle_task_on_def classify_task_eq demo_env_def)
  have n: "\<not> is_HTTPException ?e1" "\<not> is_HTTPException ?e2" by simp_all
  have c1: "exn_str ?e1 = ''LLM request failed: '' @ ''Invalid'' @ '' API key''" by simp
  then have c1': "\<exists>u v. exn_str ?e1 = u @ ''Invalid'' @ v" by blast
  have c2: "\<not> py_in ''Invalid'' (exn_str ?e2) \<and> \<not> py_in ''Failed to parse'' (exn_str ?e2)"
    by code_simp
  then have c2': "\<not> ((\<exists>u v. exn_str ?e2 = u @ ''Invalid'' @ v) \<or>
               (\<exists>u v. exn_str ?e2 = u @ ''Failed to parse'' @ v))"
    by (simp only: py_in_iff simp_thms)
  have "http_status (fst (run_task_on TaskHandler_attributes (demo_env (Inl ?e1)) ?t)) = 400"
    using run_task_status_by_message [OF h1 h2 a n(1)] c1' by simp
  moreover
  have "http_status (fst (run_task_on TaskHandler_attributes (demo_env (Inl ?e2)) ?t)) = 500"
    using run_task_status_by_message [OF h1 h2 b n(2)] c2' by simp
  ultimately show ?thesis by (simp add: run_task_def)
qed

section \<open>The contact-sort handler\<close>

text \<open>On keys of two strings, \<^verbatim>\<open><\<close> is the lexicographic order of the pairs and never
  raises, so the sort is the stable insertion sort by the pair of names.\<close>

lemma key_lt_strings:
  "key_lt (JStr a, JStr b) (JStr c, JStr d) = Some ((a, b) < (c, d))"
  by (auto simp: key_lt_def less_prod_def)

lemma key_lt_names:
  "key_lt (map_prod JStr JStr p) (map_prod JStr JStr q) = Some (p < q)"
  by (cases p, cases q) (simp add: key_lt_strings)

lemma contact_key_names:
  assumes "py_getitem x ''last_name'' = Inr (JStr l)"
    and "py_getitem x ''first_name'' = Inr (JStr f)"
  shows "contact_key x = Inr (map_prod JStr JStr (name_key x))"
  using assms by (simp add: contact_key_def name_key_def name_of_def)

lemma contact_keys_names:
  assumes "\<forall>c\<in>set cs. \<exists>l f. py_getitem c ''last_name'' = Inr (JStr l) \<and>
             py_getitem c ''first_name'' = Inr (JStr f)"
  shows "contact_keys cs = Inr (map (\<lambda>c. map_prod JStr JStr (name_key c)) cs)"
  using assms
proof (induction cs)
  case Nil show ?case by simp
next
  case (Cons c cs)
  then obtain l f where "py_getitem c ''last_name'' = Inr (JStr l)"
    "py_getitem c ''first_name'' = Inr (JStr f)" by auto
  then have "contact_key c = Inr (map_prod JStr JStr (name_key c))" by (rule contact_key_names)
  with Cons show ?case by simp
qed

lemma orderable_names: "orderable (map (\<lambda>c. map_prod JStr JStr (f c)) cs)"
  by (induction cs) (simp_all add: list_all_iff key_lt_names)

lemma insort_lt_eq:
  fixes f :: "'a \<Rightarrow> 'b::linorder"
  assumes "\<forall>y\<in>set ys. lt y x \<longleftrightarrow> f y < f x"
  shows "insort_lt lt x ys = insort_key f x ys"
  using assms by (induction ys) (auto simp: not_less)

lemma sort_lt_eq:
  fixes f :: "'a \<Rightarrow> 'b::linorder"
  assumes "\<forall>x\<in>set xs. \<forall>y\<in>set xs. lt y x \<longleftrightarrow> f y < f x"
  shows "sort_lt lt xs = sort_key f xs"
  using assms
proof (induction xs)
  case Nil show ?case by (simp add: sort_lt_def)
next
  case (Cons x xs)
  then have ih: "sort_lt lt xs = sort_key f xs" by simp
  have "sort_lt lt (x # xs) = insort_lt lt x (sort_lt lt xs)" by (simp add: sort_lt_def)
  also have "\<dots> = insort_lt lt x (sort_key f xs)" by (simp only: ih)
  also have "\<dots> = insort_key f x (sort_key f xs)"
    using Cons.prems by (intro insort_lt_eq) simp
  finally show ?case by simp
qed

lemma insort_decorated_eq:
  "insort_key (\<lambda>p. g (snd p)) (h c, c) (map (\<lambda>x. (h x, x)) xs)
     = map (\<lambda>x. (h x, x)) (insort_key g c xs)"
  by (induction xs) simp_all

lemma sort_decorated:
  "sort_key (\<lambda>p. g (snd p)) (map (\<lambda>x. (h x, x)) xs) = map (\<lambda>x. (h x, x)) (sort_key g xs)"
  by (induction xs) (simp_all add: insort_decorated_eq)

lemma zip_decorated: "zip (map h xs) xs = map (\<lambda>x. (h x, x)) xs"
  by (induction xs) simp_all

lemma sorted_contacts_eq:
  assumes "\<forall>c\<in>set cs. \<exists>l f. py_getitem c ''last_name'' = Inr (JStr l) \<and>
             py_getitem c ''first_name'' = Inr (JStr f)"
  shows "sorted_contacts E cs = Inr (sort_key name_key cs)"
proof -
  let ?h = "\<lambda>c. map_prod JStr JStr (name_key c)"
  let ?lt = "\<lambda>p q. key_lt (fst p) (fst q) = Some True"
  let ?d = "map (\<lambda>x. (?h x, x)) cs"
  have keys: "contact_keys cs = Inr (map ?h cs)"
    using assms by (rule contact_keys_names)
  have "\<forall>x\<in>set ?d. \<forall>y\<in>set ?d. ?lt y x \<longleftrightarrow> name_key (snd y) < name_key (snd x)"
    by (auto simp: key_lt_names)
  then have "sort_lt ?lt ?d = sort_key (\<lambda>p. name_key (snd p)) ?d"
    by (rule sort_lt_eq)
  also have "\<dots> = map (\<lambda>x. (?h x, x)) (sort_key name_key cs)"
    by (rule sort_decorated)
  finally have "map snd (sort_lt ?lt (zip (map ?h cs) cs)) = sort_key name_key cs"
    by (simp add: zip_decorated comp_def)
  with keys orderable_names [of name_key cs] show ?thesis
    by (simp add: sorted_contacts_def)
qed

text \<open>The three properties fix the result: any list that is a permutation of the input,
  ascending by the key and stable is the list \<open>sort_key name_key\<close> returns, whichever
  stable sorting algorithm produced it.\<close>

lemma stable_sort_unique:
  assumes "mset out = mset contacts"
    and "\<And>c. c \<in> set out \<Longrightarrow>
           filter (\<lambda>x. name_key c = name_key x) out = filter (\<lambda>x. name_key c = name_key x) contacts"
    and "sorted (map name_key out)"
  shows "sort_key name_key contacts = out"
  using assms by (rule properties_for_sort_key)

text \<open>
  Claim C9, as stated, fails: a record can have both fields without the two names being
  strings. In the array
  \<^verbatim>\<open>[{"last_name": null, "first_name": "Al"}, {"last_name": "Jones", "first_name": "Amy"}]\<close>
  every record has \<^verbatim>\<open>last_name\<close> and \<^verbatim>\<open>first_name\<close>; both keys are computed, and the
  first comparison of the sort, \<^verbatim>\<open>('Jones', 'Amy') < (None, 'Al')\<close>, raises \<^verbatim>\<open>TypeError\<close>
  at \<^verbatim>\<open>'Jones' < None\<close>. The handler raises
  \<^verbatim>\<open>Exception("Failed to sort contacts: ...")\<close> and writes no file.
\<close>

theorem contact_sorting_null_name_counterexample:
  "(let E = (demo_env (Inr []))\<lparr>fs_read_text := (\<lambda>p. Inr demo_null_contacts_text)\<rparr>
    in json_loads E demo_null_contacts_text = Inr (JArr demo_null_contacts) \<and>
       list_all (\<lambda>c. py_getitem c ''last_name'' \<in> {Inr JNull, Inr (JStr ''Jones'')} \<and>
                     py_getitem c ''first_name'' \<in> {Inr (JStr ''Al''), Inr (JStr ''Amy'')})
         demo_null_contacts \<and>
       handle_contact_sorting E (JObj []) =
         (Inl (PyExn ''Exception''
            (''Failed to sort contacts: '' @ quoted ''<'' @
             '' not supported between instances of '' @ quoted ''str'' @ '' and '' @
             quoted ''NoneType'')), []))"
  by code_simp

text \<open>
  Claim C9, amended. For every list of records whose \<^verbatim>\<open>last_name\<close> and \<^verbatim>\<open>first_name\<close>
  are both strings, \<^verbatim>\<open>sorted(contacts, key=...)\<close> succeeds, and its result has the same
  records with the same multiplicities, is ascending by the key
  \<^verbatim>\<open>(last_name, first_name)\<close>, keeps records with equal keys in their input order, and is
  left unchanged by sorting again; a list that is already ascending is returned as it is.
  The handler, when it can read \<^verbatim>\<open>/data/contacts.json\<close>, parse it to that list and write
  the output file, writes exactly this list to \<^verbatim>\<open>/data/contacts-sorted.json\<close>.
\<close>

theorem contact_sorting_sorted_stable_idempotent:
  assumes "\<forall>c\<in>set contacts. \<exists>l f. py_getitem c ''last_name'' = Inr (JStr l) \<and>
             py_getitem c ''first_name'' = Inr (JStr f)"
  shows "\<exists>out.
      sorted_contacts E contacts = Inr out \<and>
      mset out = mset contacts \<and>
      sorted (map name_key out) \<and>
      (\<forall>k. filter (\<lambda>c. name_key c = k) out = filter (\<lambda>c. name_key c = k) contacts) \<and>
      sorted_contacts E out = Inr out \<and>
      (sorted (map name_key contacts) \<longrightarrow> out = contacts) \<and>
      (fs_read_text E contacts_file = Inr text \<and> json_loads E text = Inr (JArr contacts) \<and>
       fs_write_fault E contacts_sorted_file = None \<longrightarrow>
         handle_contact_sorting E params
           = (Inr status_success, [JsonDump contacts_sorted_file (JArr out)]))"
proof -
  let ?out = "sort_key name_key contacts"
  have res: "sorted_contacts E contacts = Inr ?out"
    using assms by (rule sorted_contacts_eq)
  have perm: "mset ?out = mset contacts" by simp
  have srt: "sorted (map name_key ?out)" by simp
  have stable: "\<forall>k. filter (\<lambda>c. name_key c = k) ?out = filter (\<lambda>c. name_key c = k) contacts"
    by (simp add: sort_key_stable)
  have "\<forall>c\<in>set ?out. \<exists>l f. py_getitem c ''last_name'' = Inr (JStr l) \<and>
             py_getitem c ''first_name'' = Inr (JStr f)"
    using assms by simp
  then have "sorted_contacts E ?out = Inr (sort_key name_key ?out)"
    by (rule sorted_contacts_eq)
  then have idem: "sorted_contacts E ?out = Inr ?out"
    using srt by (simp add: sort_key_id_if_sorted)
  have noop: "sorted (map name_key contacts) \<longrightarrow> ?out = contacts"
    by (simp add: sort_key_id_if_sorted)
  have handler: "fs_read_text E contacts_file = Inr text \<and>
       json_loads E text = Inr (JArr contacts) \<and>
       fs_write_fault E contacts_sorted_file = None \<longrightarrow>
         handle_contact_sorting E params
           = (Inr status_success, [JsonDump contacts_sorted_file (JArr ?out)])"
    using res by (simp add: handle_contact_sorting_def handle_contact_sorting_body_def)
  from res perm srt stable idem noop handler show ?thesis by blast
qed

lemma demo_sorted:
  "sorted_contacts (demo_env (Inr [])) demo_contacts =
     Inr [demo_contact 4 ''Al'' ''Jones'', demo_contact 2 ''Amy'' ''Jones'',
          demo_contact 3 ''Amy'' ''Jones'', demo_contact 1 ''Bob'' ''Smith'']"
  by code_simp

lemma demo_names:
  "\<forall>c\<in>set demo_contacts. \<exists>l f. py_getitem c ''last_name'' = Inr (JStr l) \<and>
             py_getitem c ''first_name'' = Inr (JStr f)"
  by (simp add: demo_contacts_def demo_contact_def)

theorem contact_sorting_sorted_stable_idempotent_witness:
  "handle_contact_sorting (demo_env (Inr [])) (JObj []) =
     (Inr status_success,
      [JsonDump contacts_sorted_file
         (JArr [demo_contact 4 ''Al'' ''Jones'', demo_contact 2 ''Amy'' ''Jones'',
          demo_contact 3 ''Amy'' ''Jones'', demo_contact 1 ''Bob'' ''Smith''])])"
proof -
  let ?E = "demo_env (Inr [])"
  have io: "fs_read_text ?E contacts_file = Inr demo_contacts_text \<and>
        json_loads ?E demo_contacts_text = Inr (JArr demo_contacts) \<and>
        fs_write_fault ?E contacts_sorted_file = None"
    by code_simp
  from contact_sorting_sorted_stable_idempotent [OF demo_names, of ?E demo_contacts_text "JObj []"]
  obtain out where out: "sorted_contacts ?E demo_contacts = Inr out"
    and h: "fs_read_text ?E contacts_file = Inr demo_contacts_text \<and>
        json_loads ?E demo_contacts_text = Inr (JArr demo_contacts) \<and>
        fs_write_fault ?E contacts_sorted_file = None \<longrightarrow>
         handle_contact_sorting ?E (JObj [])
           = (Inr status_success, [JsonDump contacts_sorted_file (JArr out)])"
    by blast
  from out demo_sorted have "out = [demo_contact 4 ''Al'' ''Jones'', demo_contact 2 ''Amy'' ''Jones'',
          demo_contact 3 ''Amy'' ''Jones'', demo_contact 1 ''Bob'' ''Smith'']"
    by simp
  with h io show ?thesis by simp
qed

section \<open>Dates: digits, parsing and the calendar\<close>

subsection \<open>Decimal digits\<close>

lemma of_char_digit: "k < 10 \<Longrightarrow> (of_char (digit_char k) :: nat) = 48 + k"
  by (simp add: digit_char_def)

lemma digit_char_eq: "k < 10 \<Longrightarrow> digit_char k = c \<longleftrightarrow> (of_char c :: nat) = 48 + k"
  using of_char_digit [of k] of_char_eq_iff [of "digit_char k" c, where ?'a = nat] by auto

lemma is_digit_digit_char: "k < 10 \<Longrightarrow> is_digit (digit_char k)"
  by (simp add: is_digit_def of_char_digit)

lemma digit_val_digit_char: "k < 10 \<Longrightarrow> digit_val (digit_char k) = int k"
  by (simp add: digit_val_def of_char_digit)

lemma py_str_nat_decimal: "decimal_value (py_str_nat n) = n"
proof (induction n rule: py_str_nat.induct)
  case (1 n)
  show ?case
  proof (cases "n < 10")
    case True
    then show ?thesis
      by (subst py_str_nat.simps) (simp add: decimal_value_def of_char_digit)
  next
    case False
    with 1 have ih: "decimal_value (py_str_nat (n div 10)) = n div 10" by simp
    have "decimal_value (py_str_nat n)
        = 10 * decimal_value (py_str_nat (n div 10)) + (of_char (digit_char (n mod 10)) - 48)"
      using False by (subst py_str_nat.simps) (simp add: decimal_value_def)
    also have "\<dots> = 10 * (n div 10) + n mod 10"
      by (simp add: ih of_char_digit)
    finally show ?thesis by simp
  qed
qed

subsection \<open>\<^verbatim>\<open>strptime\<close> reads what \<^verbatim>\<open>isoformat\<close> writes\<close>

lemma match_year_digits:
  assumes "a < 10" "b < 10" "c < 10" "d < 10"
  shows "match_year [digit_char a, digit_char b, digit_char c, digit_char d]
           = Some (1000 * int a + 100 * int b + 10 * int c + int d)"
  using assms by (simp add: match_year_def is_digit_digit_char digit_val_digit_char)




lemma match_month_table:
  "list_all (\<lambda>m. match_month [digit_char (m div 10 mod 10), digit_char (m mod 10)] = Some (int m))
     [1..<13]"
  by code_simp

lemma match_day_table:
  "list_all (\<lambda>d. match_day [digit_char (d div 10 mod 10), digit_char (d mod 10)] = Some (int d))
     [1..<32]"
  by code_simp

lemma match_month_digits:
  assumes "1 \<le> m" "m \<le> 12"
  shows "match_month [digit_char (m div 10 mod 10), digit_char (m mod 10)] = Some (int m)"
proof -
  from assms have "m \<in> set [1..<13]" by simp
  with match_month_table show ?thesis unfolding list_all_iff by blast
qed

lemma match_day_digits:
  assumes "1 \<le> d" "d \<le> 31"
  shows "match_day [digit_char (d div 10 mod 10), digit_char (d mod 10)] = Some (int d)"
proof -
  from assms have "d \<in> set [1..<32]" by simp
  with match_day_table show ?thesis unfolding list_all_iff by blast
qed


lemma year_digits:
  assumes "y < 10000"
  shows "1000 * (y div 100 div 10 mod 10) + 100 * (y div 100 mod 10) + 10 * (y div 10 mod 10)
           + y mod 10 = (y::nat)"
proof -
  define a where "a = y div 10"
  define b where "b = a div 10"
  define c where "c = b div 10"
  have ya: "y = 10 * a + y mod 10" unfolding a_def by simp
  have ab: "a = 10 * b + a mod 10" unfolding b_def by simp
  have bc: "b = 10 * c + b mod 10" unfolding c_def by simp
  have yb: "y div 100 = b" unfolding b_def a_def by (simp add: div_mult2_eq)
  from assms ya ab bc have "c < 10" by linarith
  then have cc: "c mod 10 = c" by simp
  have "1000 * (b div 10 mod 10) + 100 * (b mod 10) + 10 * (a mod 10) + y mod 10 = y"
    using ya ab bc cc unfolding c_def [symmetric] by linarith
  then show ?thesis unfolding yb a_def .
qed

lemma digit_not_dash: "k < 10 \<Longrightarrow> digit_char k \<noteq> CHR ''-''"
  by (simp add: digit_char_eq)

lemma days_in_month_le:
  assumes "1 \<le> m" "m \<le> 12"
  shows "days_in_month y m \<le> 31"
proof -
  from assms have "nat (m - 1) \<in> set [0..<12]" by auto
  moreover have "list_all (\<lambda>i. DAYS_IN_MONTH ! i \<le> 31) [0..<12]" by code_simp
  ultimately have "DAYS_IN_MONTH ! nat (m - 1) \<le> 31" unfolding list_all_iff by blast
  then show ?thesis by (simp add: days_in_month_def)
qed

lemma strptime_isoformat:
  assumes "valid_date dt"
  shows "strptime_Ymd (isoformat dt) = Some dt"
proof -
  define y where "y = nat (year dt)"
  define m where "m = nat (month dt)"
  define d where "d = nat (day dt)"
  from assms have yr: "1 \<le> year dt" "year dt \<le> 9999" and mr: "1 \<le> month dt" "month dt \<le> 12"
    and dr: "1 \<le> day dt" "day dt \<le> days_in_month (year dt) (month dt)"
    by (simp_all add: valid_date_def)
  from dr days_in_month_le [OF mr, of "year dt"] have d31: "day dt \<le> 31" by linarith
  have ym: "int y = year dt" "int m = month dt" "int d = day dt"
    using yr mr dr by (simp_all add: y_def m_def d_def)
  have yb: "y < 10000" and mb: "1 \<le> m" "m \<le> 12" and db: "1 \<le> d" "d \<le> 31"
    using yr mr dr d31 by (simp_all add: y_def m_def d_def)
  have iso: "isoformat dt =
      [digit_char (y div 100 div 10 mod 10), digit_char (y div 100 mod 10),
       digit_char (y div 10 mod 10), digit_char (y mod 10), CHR ''-'',
       digit_char (m div 10 mod 10), digit_char (m mod 10), CHR ''-'',
       digit_char (d div 10 mod 10), digit_char (d mod 10)]"
    by (simp add: isoformat_def two_digits_def y_def m_def d_def)
  have my: "match_year [digit_char (y div 100 div 10 mod 10), digit_char (y div 100 mod 10),
       digit_char (y div 10 mod 10), digit_char (y mod 10)] = Some (year dt)"
  proof -
    have "match_year [digit_char (y div 100 div 10 mod 10), digit_char (y div 100 mod 10),
       digit_char (y div 10 mod 10), digit_char (y mod 10)]
       = Some (1000 * int (y div 100 div 10 mod 10) + 100 * int (y div 100 mod 10)
               + 10 * int (y div 10 mod 10) + int (y mod 10))"
      by (rule match_year_digits) simp_all
    also have "1000 * int (y div 100 div 10 mod 10) + 100 * int (y div 100 mod 10)
               + 10 * int (y div 10 mod 10) + int (y mod 10)
             = int (1000 * (y div 100 div 10 mod 10) + 100 * (y div 100 mod 10)
                   + 10 * (y div 10 mod 10) + y mod 10)"
      by simp
    also have "\<dots> = int y" using year_digits [OF yb] by simp
    finally show ?thesis using ym by simp
  qed
  have mm: "match_month [digit_char (m div 10 mod 10), digit_char (m mod 10)] = Some (month dt)"
    using match_month_digits [OF mb] ym by simp
  have md: "match_day [digit_char (d div 10 mod 10), digit_char (d mod 10)] = Some (day dt)"
    using match_day_digits [OF db] ym by simp
  have nd: "digit_char (m div 10 mod 10) \<noteq> CHR ''-''" "digit_char (m mod 10) \<noteq> CHR ''-''"
    by (simp_all add: digit_not_dash)
  have rc: "\<lparr>year = year dt, month = month dt, day = day dt\<rparr> = dt" by simp
  show ?thesis
    unfolding iso strptime_Ymd_def
    using my mm md nd assms by (simp add: rc)
qed

lemma strptime_valid: "strptime_Ymd s = Some dt \<Longrightarrow> valid_date dt"
  by (auto simp: strptime_Ymd_def Let_def split: option.splits list.splits if_splits)

subsection \<open>The weekday follows the calendar\<close>

text \<open>The day number of the day after a date is one more, so the weekday advances by one
  modulo 7; with 2024-01-03 a Wednesday (weekday 2), \<open>weekday dt = 2\<close> says that \<open>dt\<close> is a
  Wednesday.\<close>

lemma div_step:
  fixes y k :: int
  assumes "0 < k"
  shows "y div k = (y - 1) div k + (if y mod k = 0 then 1 else 0)"
proof (cases "y mod k = 0")
  case True
  have "y = k * (y div k) + y mod k" by simp
  with True have "y - 1 = k * (y div k - 1) + (k - 1)" by (simp add: algebra_simps)
  moreover have "0 \<le> k - 1" "k - 1 < k" using assms by simp_all
  ultimately have "(y - 1) div k = y div k - 1" by (rule int_div_pos_eq)
  with True show ?thesis by simp
next
  case False
  have m: "0 \<le> y mod k" "y mod k < k" using assms by simp_all
  have "y = k * (y div k) + y mod k" by simp
  then have "y - 1 = k * (y div k) + (y mod k - 1)" by simp
  moreover have "0 \<le> y mod k - 1" "y mod k - 1 < k" using m False by linarith+
  ultimately have "(y - 1) div k = y div k" by (rule int_div_pos_eq)
  with False show ?thesis by simp
qed

lemma dvd_mod_chain:
  fixes y :: int
  shows "y mod 400 = 0 \<Longrightarrow> y mod 100 = 0" and "y mod 100 = 0 \<Longrightarrow> y mod 4 = 0"
proof -
  have a: "(100::int) dvd 400" and b: "(4::int) dvd 100" by simp_all
  show "y mod 400 = 0 \<Longrightarrow> y mod 100 = 0"
    using a by (meson dvd_trans mod_0_imp_dvd dvd_imp_mod_0)
  show "y mod 100 = 0 \<Longrightarrow> y mod 4 = 0"
    using b by (meson dvd_trans mod_0_imp_dvd dvd_imp_mod_0)
qed

lemma year_step_arith:
  fixes A A' B B' C C' a b c k y :: int
  assumes "A = A' + a" "B = B' + b" "C = C' + c" "a - b + c = k"
  shows "y * 365 + A - B + C = (y - 1) * 365 + A' - B' + C' + 365 + k"
  using assms by (simp add: algebra_simps)

lemma leap_indicator:
  fixes y :: int
  shows "(if y mod 4 = 0 then 1 else 0) - (if y mod 100 = 0 then 1 else 0)
           + (if y mod 400 = 0 then 1 else 0) = (if is_leap y then 1 else (0::int))"
proof (cases "y mod 400 = 0")
  case True
  with dvd_mod_chain [of y] have "y mod 100 = 0" "y mod 4 = 0" by auto
  with True show ?thesis by (simp add: is_leap_def)
next
  case False
  show ?thesis
  proof (cases "y mod 100 = 0")
    case True
    with dvd_mod_chain [of y] have "y mod 4 = 0" by auto
    with True False show ?thesis by (simp add: is_leap_def)
  next
    case False
    with \<open>y mod 400 \<noteq> 0\<close> show ?thesis by (simp add: is_leap_def)
  qed
qed

lemma days_before_year_Suc:
  "days_before_year (y + 1) = days_before_year y + 365 + (if is_leap y then 1 else 0)"
proof -
  have e4: "y div 4 = (y - 1) div 4 + (if y mod 4 = 0 then 1 else 0)"
    and e100: "y div 100 = (y - 1) div 100 + (if y mod 100 = 0 then 1 else 0)"
    and e400: "y div 400 = (y - 1) div 400 + (if y mod 400 = 0 then 1 else 0)"
    by (rule div_step, simp)+
  have l: "days_before_year (y + 1) = y * 365 + y div 4 - y div 100 + y div 400"
    by (simp add: days_before_year_def)
  have r: "days_before_year y = (y - 1) * 365 + (y - 1) div 4 - (y - 1) div 100 + (y - 1) div 400"
    by (simp add: days_before_year_def Let_def)
  show ?thesis
    unfolding l r
    by (rule year_step_arith [OF e4 e100 e400 leap_indicator])
qed

lemma month_table:
  "list_all (\<lambda>b. list_all (\<lambda>m.
      sum_list (take (nat ((m + 1) - 1)) DAYS_IN_MONTH) + (if m + 1 > 2 \<and> b then 1 else 0)
        = sum_list (take (nat (m - 1)) DAYS_IN_MONTH) + (if m > 2 \<and> b then 1 else 0)
          + (if m = 2 \<and> b then 29 else DAYS_IN_MONTH ! nat (m - 1))) [1..11]) [True, False]"
  by code_simp

lemma days_before_month_Suc:
  assumes "1 \<le> m" "m \<le> 11"
  shows "days_before_month y (m + 1) = days_before_month y m + days_in_month y m"
proof -
  from assms have "m \<in> set [1..11]" by simp
  moreover have "is_leap y \<in> set [True, False]" by simp
  ultimately show ?thesis
    using month_table unfolding list_all_iff days_before_month_def days_in_month_def by blast
qed

lemma december:
  "days_before_month y 12 + days_in_month y 12 = 365 + (if is_leap y then 1 else 0)"
  "days_before_month y 1 = 0"
  by (simp_all add: days_before_month_def days_in_month_def DAYS_IN_MONTH_def)

lemma toordinal_next_day:
  assumes "valid_date dt"
  shows "toordinal (next_day dt) = toordinal dt + 1"
proof -
  from assms have mr: "1 \<le> month dt" "month dt \<le> 12"
    and dr: "day dt \<le> days_in_month (year dt) (month dt)"
    by (simp_all add: valid_date_def)
  consider "day dt < days_in_month (year dt) (month dt)"
    | "day dt = days_in_month (year dt) (month dt)" "month dt < 12"
    | "day dt = days_in_month (year dt) (month dt)" "month dt = 12"
    using dr mr by linarith
  then show ?thesis
  proof cases
    case 1
    then show ?thesis by (simp add: next_day_def toordinal_def)
  next
    case 2
    with mr have "days_before_month (year dt) (month dt + 1)
        = days_before_month (year dt) (month dt) + days_in_month (year dt) (month dt)"
      by (intro days_before_month_Suc) simp_all
    with 2 show ?thesis by (simp add: next_day_def toordinal_def)
  next
    case 3
    then show ?thesis
      using december [of "year dt"] december(2) [of "year dt + 1"]
        days_before_year_Suc [of "year dt"]
      by (simp add: next_day_def toordinal_def)
  qed
qed

lemma weekday_next_day:
  assumes "valid_date dt"
  shows "weekday (next_day dt) = (weekday dt + 1) mod 7"
  unfolding weekday_def toordinal_next_day [OF assms]
  by (simp add: mod_simps algebra_simps)

lemma wednesday_anchor: "weekday \<lparr>year = 2024, month = 1, day = 3\<rparr> = 2"
  by code_simp

lemma days_in_month_ge:
  assumes "1 \<le> m" "m \<le> 12"
  shows "28 \<le> days_in_month y m"
proof -
  from assms have "nat (m - 1) \<in> set [0..<12]" by auto
  moreover have "list_all (\<lambda>i. 28 \<le> DAYS_IN_MONTH ! i) [0..<12]" by code_simp
  ultimately have "28 \<le> DAYS_IN_MONTH ! nat (m - 1)" unfolding list_all_iff by blast
  then show ?thesis by (simp add: days_in_month_def)
qed

lemma next_day_valid:
  assumes "valid_date dt" "year dt < 9999"
  shows "valid_date (next_day dt)"
proof -
  from assms have yr: "1 \<le> year dt" and mr: "1 \<le> month dt" "month dt \<le> 12"
    and dr: "1 \<le> day dt" "day dt \<le> days_in_month (year dt) (month dt)"
    by (simp_all add: valid_date_def)
  consider "day dt < days_in_month (year dt) (month dt)"
    | "\<not> day dt < days_in_month (year dt) (month dt)" "month dt < 12"
    | "\<not> day dt < days_in_month (year dt) (month dt)" "\<not> month dt < 12"
    by argo
  then show ?thesis
  proof cases
    case 1
    with assms yr mr dr show ?thesis by (simp add: next_day_def valid_date_def)
  next
    case 2
    with mr have "28 \<le> days_in_month (year dt) (month dt + 1)"
      by (intro days_in_month_ge) simp_all
    with 2 assms yr mr show ?thesis by (simp add: next_day_def valid_date_def)
  next
    case 3
    have "28 \<le> days_in_month (year dt + 1) 1" by (rule days_in_month_ge) simp_all
    with 3 assms yr show ?thesis by (simp add: next_day_def valid_date_def)
  qed
qed

section \<open>The weekday-count handler\<close>

lemma iso_wednesday_iff:
  "(\<exists>dt. valid_date dt \<and> s = isoformat dt \<and> weekday dt = 2) \<longleftrightarrow> iso_wednesday s"
proof
  assume "\<exists>dt. valid_date dt \<and> s = isoformat dt \<and> weekday dt = 2"
  then obtain dt where "valid_date dt" "s = isoformat dt" "weekday dt = 2" by blast
  then show "iso_wednesday s"
    by (simp add: iso_wednesday_def strptime_isoformat)
next
  assume "iso_wednesday s"
  then obtain dt where dt: "strptime_Ymd s = Some dt" "isoformat dt = s" "weekday dt = 2"
    by (auto simp: iso_wednesday_def split: option.splits)
  from dt(1) have "valid_date dt" by (rule strptime_valid)
  with dt show "\<exists>dt. valid_date dt \<and> s = isoformat dt \<and> weekday dt = 2" by blast
qed

lemma count_wednesdays_iso:
  assumes "\<forall>l\<in>set ls. \<exists>dt. valid_date dt \<and> py_strip l = isoformat dt"
  shows "count_wednesdays E ls =
     Inr (length (filter (\<lambda>l. \<exists>dt. valid_date dt \<and> py_strip l = isoformat dt \<and> weekday dt = 2) ls))"
  using assms
proof (induction ls)
  case Nil
  show ?case by simp
next
  case (Cons l ls)
  then obtain dt where dt: "valid_date dt" "py_strip l = isoformat dt" by auto
  then have p: "strptime_Ymd (py_strip l) = Some dt" by (simp add: strptime_isoformat)
  have w: "(\<exists>dt'. valid_date dt' \<and> py_strip l = isoformat dt' \<and> weekday dt' = 2) \<longleftrightarrow> weekday dt = 2"
    using p dt by (simp add: iso_wednesday_iff iso_wednesday_def)
  from Cons have "count_wednesdays E ls =
     Inr (length (filter (\<lambda>l. \<exists>dt. valid_date dt \<and> py_strip l = isoformat dt \<and> weekday dt = 2) ls))"
    by simp
  with p w show ?case by simp
qed

text \<open>
  Claim C8. For every dates file whose lines are ISO dates, one per line, the
  weekday-count handler (when it can read \<^verbatim>\<open>/data/dates.txt\<close> and write the output file)
  succeeds and writes to \<^verbatim>\<open>/data/dates-wednesdays.txt\<close> the decimal count of the lines
  whose date is a Wednesday; for the lines 2024-01-01, 2024-01-03, 2024-01-10 it writes
  \<^verbatim>\<open>2\<close>.
\<close>

theorem weekday_counting_writes_wednesday_count:
  assumes "fs_read_text E dates_file = Inr text"
    and "\<forall>l\<in>set (readlines text). \<exists>dt. valid_date dt \<and> py_strip l = isoformat dt"
    and "fs_write_fault E wednesdays_file = None"
  shows "handle_weekday_counting E params =
     (Inr status_success,
      [FileWrite wednesdays_file
         (py_str_nat (length (filter
            (\<lambda>l. \<exists>dt. valid_date dt \<and> py_strip l = isoformat dt \<and> weekday dt = 2)
            (readlines text))))])"
  using assms(1,3) count_wednesdays_iso [OF assms(2), of E]
  by (simp add: handle_weekday_counting_def handle_weekday_counting_body_def)

lemma demo_lines:
  "readlines demo_dates_text =
     [''2024-01-01'' @ [CHR 0x0A], ''2024-01-03'' @ [CHR 0x0A], ''2024-01-10'' @ [CHR 0x0A]]"
  by code_simp

lemma demo_line_dates:
  "valid_date \<lparr>year = 2024, month = 1, day = 1\<rparr> \<and>
   py_strip (''2024-01-01'' @ [CHR 0x0A]) = isoformat \<lparr>year = 2024, month = 1, day = 1\<rparr>"
  "valid_date \<lparr>year = 2024, month = 1, day = 3\<rparr> \<and>
   py_strip (''2024-01-03'' @ [CHR 0x0A]) = isoformat \<lparr>year = 2024, month = 1, day = 3\<rparr>"
  "valid_date \<lparr>year = 2024, month = 1, day = 10\<rparr> \<and>
   py_strip (''2024-01-10'' @ [CHR 0x0A]) = isoformat \<lparr>year = 2024, month = 1, day = 10\<rparr>"
  by code_simp+

theorem weekday_counting_writes_wednesday_count_witness:
  "fs_read_text (demo_env (Inr [])) dates_file
     = Inr (''2024-01-01'' @ [CHR 0x0A] @ ''2024-01-03'' @ [CHR 0x0A] @ ''2024-01-10'' @ [CHR 0x0A]) \<and>
   handle_weekday_counting (demo_env (Inr [])) (JObj [])
     = (Inr status_success, [FileWrite ''/data/dates-wednesdays.txt'' ''2''])"
proof -
  let ?E = "demo_env (Inr [])"
  have rd: "fs_read_text ?E dates_file = Inr demo_dates_text" by code_simp
  have wr: "fs_write_fault ?E wednesdays_file = None" by (simp add: demo_env_def)
  have iso: "\<forall>l\<in>set (readlines demo_dates_text).
      \<exists>dt. valid_date dt \<and> py_strip l = isoformat dt"
    unfolding demo_lines using demo_line_dates by auto
  have cnt: "length (filter (\<lambda>l. iso_wednesday (py_strip l)) (readlines demo_dates_text)) = 2"
    by code_simp
  have two: "py_str_nat 2 = ''2''" by code_simp
  have "handle_weekday_counting ?E (JObj []) =
     (Inr status_success, [FileWrite wednesdays_file ''2''])"
    using weekday_counting_writes_wednesday_count [OF rd iso wr, of "JObj []"]
    by (simp only: iso_wednesday_iff cnt two)
  then show ?thesis using rd by (simp add: wednesdays_file_def demo_dates_text_def)
qed

end
